theory Spec2Isabelle
  imports Main "HOL-Library.Multiset"
begin

section \<open>The store (src/db): clients, conversations, messages, message\_queue\<close>

text \<open>
  The SQLite tables of \<^verbatim>\<open>schema.sql\<close> are lists of rows in insertion (rowid) order.
  A timestamp column holds the text written by
  \<^verbatim>\<open>strftime('%Y-%m-%dT%H:%M:%fZ','now')\<close>: fixed width, UTC, millisecond
  resolution, so SQLite's text comparison of two such values is the chronological one.
  A timestamp is modelled as the number of milliseconds it denotes, and the clock
  reading of a statement is the argument \<open>now\<close> of the function that runs it.
  A nullable column is an \<open>option\<close>. The values of \<^verbatim>\<open>randomUUID()\<close> are
  arguments as well.
\<close>

type_synonym timestamp = nat

datatype ClientId = claude | codex

datatype ClientStatus = online | offline | busy

datatype ConversationStatus = C_active | C_pending | C_completed | C_archived

datatype MessageType =
  T_message | T_research_request | T_research_response
  | T_review_request | T_review_response | T_context_share | T_system

datatype MessagePriority = P_normal | P_high | P_urgent

datatype MessageStatus = S_pending | S_delivered | S_read | S_responded

record Client =
  cl_id :: ClientId
  cl_display_name :: string
  cl_last_seen_at :: "timestamp option"
  cl_session_id :: "string option"
  cl_status :: ClientStatus
  cl_created_at :: timestamp

record Conversation =
  cv_id :: string
  cv_title :: "string option"
  cv_project :: "string option"
  cv_status :: ConversationStatus
  cv_created_by :: ClientId
  cv_created_at :: timestamp
  cv_updated_at :: timestamp
  cv_closed_at :: "timestamp option"
  cv_summary :: "string option"
  cv_metadata :: "string option"

record Message =
  m_id :: string
  m_conversation_id :: string
  m_sender :: ClientId
  m_target :: ClientId
  m_content :: string
  m_message_type :: MessageType
  m_priority :: MessagePriority
  m_status :: MessageStatus
  m_response_to_id :: "string option"
  m_created_at :: timestamp
  m_delivered_at :: "timestamp option"
  m_read_at :: "timestamp option"
  m_metadata :: "string option"

record QueuedMessage =
  q_id :: nat
  q_message_id :: string
  q_target :: ClientId
  q_priority :: int
  q_attempts :: nat
  q_max_attempts :: int
  q_next_attempt :: timestamp
  q_created_at :: timestamp

record Db =
  clients :: "Client list"
  conversations :: "Conversation list"
  messages :: "Message list"
  message_queue :: "QueuedMessage list"

text \<open>
  A statement that violates a constraint of the schema (PRIMARY KEY, UNIQUE, a foreign
  key with \<^verbatim>\<open>foreign_keys = ON\<close>) throws; the dispatcher throws when the
  conversation it was given does not exist; the tool handlers return their own errors.
\<close>

datatype error =
  SqliteConstraint
  | ConversationNotFound string
  | UnknownClient
  | MessageNotFound
  | NotTheTarget

subsection \<open>clients.ts\<close>

definition getClient :: "Db \<Rightarrow> ClientId \<Rightarrow> Client option" where
  "getClient db cid = find (\<lambda>c. cl_id c = cid) (clients db)"

definition updateClientStatus :: "Db \<Rightarrow> timestamp \<Rightarrow> ClientId \<Rightarrow> ClientStatus \<Rightarrow> string option \<Rightarrow> Db" where
  "updateClientStatus db now cid st sessionId =
     db\<lparr>clients :=
       map (\<lambda>c. if cl_id c = cid
                then c\<lparr>cl_status := st, cl_session_id := sessionId, cl_last_seen_at := Some now\<rparr>
                else c) (clients db)\<rparr>"

definition setClientOffline :: "Db \<Rightarrow> ClientId \<Rightarrow> Db" where
  "setClientOffline db cid =
     db\<lparr>clients :=
       map (\<lambda>c. if cl_id c = cid then c\<lparr>cl_status := offline, cl_session_id := None\<rparr> else c)
         (clients db)\<rparr>"

definition isClientOnline :: "Db \<Rightarrow> ClientId \<Rightarrow> bool" where
  "isClientOnline db cid =
     (case getClient db cid of None \<Rightarrow> False | Some c \<Rightarrow> cl_status c = online)"

subsection \<open>conversations.ts\<close>

record CreateConversationInput =
  ci_title :: "string option"
  ci_project :: "string option"
  ci_created_by :: ClientId
  ci_metadata :: "string option"

definition getConversation :: "Db \<Rightarrow> string \<Rightarrow> Conversation option" where
  "getConversation db cid = find (\<lambda>c. cv_id c = cid) (conversations db)"

definition createConversation ::
  "Db \<Rightarrow> timestamp \<Rightarrow> string \<Rightarrow> CreateConversationInput \<Rightarrow> error + (Conversation \<times> Db)" where
  "createConversation db now uuid input =
     (if getConversation db uuid \<noteq> None \<or> getClient db (ci_created_by input) = None
      then Inl SqliteConstraint
      else
        let row = \<lparr>cv_id = uuid, cv_title = ci_title input, cv_project = ci_project input,
                   cv_status = C_active, cv_created_by = ci_created_by input,
                   cv_created_at = now, cv_updated_at = now, cv_closed_at = None,
                   cv_summary = None, cv_metadata = ci_metadata input\<rparr>
        in Inr (row, db\<lparr>conversations := conversations db @ [row]\<rparr>))"

record ConversationUpdates =
  up_title :: "string option"
  up_status :: "ConversationStatus option"
  up_summary :: "string option"

definition updateConversation ::
  "Db \<Rightarrow> timestamp \<Rightarrow> string \<Rightarrow> ConversationUpdates \<Rightarrow> Conversation option \<times> Db" where
  "updateConversation db now cid updates =
     (let set_title = (\<lambda>c. case up_title updates of None \<Rightarrow> c | Some t \<Rightarrow> c\<lparr>cv_title := Some t\<rparr>);
          set_status = (\<lambda>c. case up_status updates of None \<Rightarrow> c
                          | Some s \<Rightarrow>
                              if s = C_completed \<or> s = C_archived
                              then c\<lparr>cv_status := s, cv_closed_at := Some now\<rparr>
                              else c\<lparr>cv_status := s\<rparr>);
          set_summary = (\<lambda>c. case up_summary updates of None \<Rightarrow> c | Some t \<Rightarrow> c\<lparr>cv_summary := Some t\<rparr>);
          db' = db\<lparr>conversations :=
                  map (\<lambda>c. if cv_id c = cid
                           then set_summary (set_status (set_title (c\<lparr>cv_updated_at := now\<rparr>)))
                           else c) (conversations db)\<rparr>
      in (getConversation db' cid, db'))"

definition closeConversation ::
  "Db \<Rightarrow> timestamp \<Rightarrow> string \<Rightarrow> string option \<Rightarrow> Conversation option \<times> Db" where
  "closeConversation db now cid summary =
     updateConversation db now cid
       \<lparr>up_title = None, up_status = Some C_completed, up_summary = summary\<rparr>"

subsection \<open>messages.ts\<close>

record CreateMessageInput =
  mi_conversation_id :: string
  mi_sender :: ClientId
  mi_target :: ClientId
  mi_content :: string
  mi_message_type :: "MessageType option"
  mi_priority :: "MessagePriority option"
  mi_response_to_id :: "string option"
  mi_metadata :: "string option"

definition getMessage :: "Db \<Rightarrow> string \<Rightarrow> Message option" where
  "getMessage db mid = find (\<lambda>m. m_id m = mid) (messages db)"

text \<open>
  \<^verbatim>\<open>createMessage\<close>: the INSERT (with the schema's defaults \<^verbatim>\<open>status = 'pending'\<close>,
  \<^verbatim>\<open>created_at = now\<close>), then the UPDATE of the conversation's \<^verbatim>\<open>updated_at\<close>,
  then the row read back. The INSERT fails on a primary key already in the table and on
  a foreign key (conversation, sender, target, \<^verbatim>\<open>response_to_id\<close>) that names no row;
  a \<^verbatim>\<open>response_to_id\<close> equal to the new id refers to the row itself. The function
  looks at no column of the conversation.
\<close>

definition createMessage ::
  "Db \<Rightarrow> timestamp \<Rightarrow> string \<Rightarrow> CreateMessageInput \<Rightarrow> error + (Message \<times> Db)" where
  "createMessage db now uuid input =
     (if getMessage db uuid \<noteq> None
         \<or> getConversation db (mi_conversation_id input) = None
         \<or> getClient db (mi_sender input) = None
         \<or> getClient db (mi_target input) = None
         \<or> (case mi_response_to_id input of
               None \<Rightarrow> False
             | Some r \<Rightarrow> r \<noteq> uuid \<and> getMessage db r = None)
      then Inl SqliteConstraint
      else
        let row = \<lparr>m_id = uuid, m_conversation_id = mi_conversation_id input,
                   m_sender = mi_sender input, m_target = mi_target input,
                   m_content = mi_content input,
                   m_message_type = (case mi_message_type input of None \<Rightarrow> T_message | Some t \<Rightarrow> t),
                   m_priority = (case mi_priority input of None \<Rightarrow> P_normal | Some p \<Rightarrow> p),
                   m_status = S_pending,
                   m_response_to_id = mi_response_to_id input,
                   m_created_at = now, m_delivered_at = None, m_read_at = None,
                   m_metadata = mi_metadata input\<rparr>
        in Inr (row,
             db\<lparr>messages := messages db @ [row],
                conversations :=
                  map (\<lambda>c. if cv_id c = mi_conversation_id input then c\<lparr>cv_updated_at := now\<rparr> else c)
                    (conversations db)\<rparr>))"

text \<open>
  \<^verbatim>\<open>getConversationMessages\<close>: \<^verbatim>\<open>ORDER BY created_at ASC LIMIT ? OFFSET ?\<close>.
  Rows are inserted with \<^verbatim>\<open>created_at = now\<close>, so the table order is already
  ascending in \<^verbatim>\<open>created_at\<close> when the clock does not go back; rows with equal
  \<^verbatim>\<open>created_at\<close> are read in table order.
\<close>

definition getConversationMessages :: "Db \<Rightarrow> string \<Rightarrow> nat \<Rightarrow> nat \<Rightarrow> Message list" where
  "getConversationMessages db cid limit offset =
     take limit (drop offset
       (sort_key m_created_at (filter (\<lambda>m. m_conversation_id m = cid) (messages db))))"

text \<open>
  \<^verbatim>\<open>updateMessageStatus\<close>: one unconditional UPDATE; the current status of the row
  is not read.
\<close>

definition updateMessageStatus :: "Db \<Rightarrow> timestamp \<Rightarrow> string \<Rightarrow> MessageStatus \<Rightarrow> Db" where
  "updateMessageStatus db now mid st =
     db\<lparr>messages :=
       map (\<lambda>m. if m_id m = mid
                then (if st = S_delivered then m\<lparr>m_status := st, m_delivered_at := Some now\<rparr>
                      else if st = S_read then m\<lparr>m_status := st, m_read_at := Some now\<rparr>
                      else m\<lparr>m_status := st\<rparr>)
                else m) (messages db)\<rparr>"

definition getResponseToMessage :: "Db \<Rightarrow> string \<Rightarrow> Message option" where
  "getResponseToMessage db mid =
     (case sort_key m_created_at (filter (\<lambda>m. m_response_to_id m = Some mid) (messages db)) of
        [] \<Rightarrow> None
      | r # _ \<Rightarrow> Some r)"

subsection \<open>message\_queue.ts\<close>

record CreateQueuedMessageInput =
  qi_message_id :: string
  qi_target :: ClientId
  qi_priority :: "int option"
  qi_max_attempts :: "int option"

text \<open>
  \<^verbatim>\<open>id INTEGER PRIMARY KEY\<close> is the rowid: SQLite gives a new row one more than the
  largest rowid in the table (1 in an empty table).
\<close>

definition next_rowid :: "QueuedMessage list \<Rightarrow> nat" where
  "next_rowid rows = Suc (fold max (map q_id rows) 0)"

definition enqueueMessage ::
  "Db \<Rightarrow> timestamp \<Rightarrow> CreateQueuedMessageInput \<Rightarrow> error + (QueuedMessage \<times> Db)" where
  "enqueueMessage db now input =
     (if getMessage db (qi_message_id input) = None
         \<or> getClient db (qi_target input) = None
         \<or> qi_message_id input \<in> set (map q_message_id (message_queue db))
      then Inl SqliteConstraint
      else
        let row = \<lparr>q_id = next_rowid (message_queue db),
                   q_message_id = qi_message_id input,
                   q_target = qi_target input,
                   q_priority = (case qi_priority input of None \<Rightarrow> 0 | Some p \<Rightarrow> p),
                   q_attempts = 0,
                   q_max_attempts = (case qi_max_attempts input of None \<Rightarrow> 3 | Some n \<Rightarrow> n),
                   q_next_attempt = now, q_created_at = now\<rparr>
        in Inr (row, db\<lparr>message_queue := message_queue db @ [row]\<rparr>))"

text \<open>
  \<^verbatim>\<open>dequeueMessages\<close>: the WHERE clause is \<open>ready\<close>, the ORDER BY clause is
  \<open>queue_before\<close> (priority descending, then next\_attempt ascending). SQLite leaves
  the order of rows that tie on both keys open; the model reads them in table order
  (a stable insertion sort). \<open>limit\<close> is the row count bound to \<^verbatim>\<open>LIMIT ?\<close>.
\<close>

definition ready :: "timestamp \<Rightarrow> ClientId \<Rightarrow> QueuedMessage \<Rightarrow> bool" where
  "ready now target q \<longleftrightarrow>
     q_target q = target \<and> q_next_attempt q \<le> now \<and> int (q_attempts q) < q_max_attempts q"

definition queue_before :: "QueuedMessage \<Rightarrow> QueuedMessage \<Rightarrow> bool" where
  "queue_before a b \<longleftrightarrow>
     q_priority b < q_priority a
     \<or> (q_priority a = q_priority b \<and> q_next_attempt a \<le> q_next_attempt b)"

fun insert_row :: "QueuedMessage \<Rightarrow> QueuedMessage list \<Rightarrow> QueuedMessage list" where
  "insert_row x [] = [x]"
| "insert_row x (y # ys) = (if queue_before x y then x # y # ys else y # insert_row x ys)"

definition order_rows :: "QueuedMessage list \<Rightarrow> QueuedMessage list" where
  "order_rows rows = foldr insert_row rows []"

definition dequeueMessages :: "Db \<Rightarrow> timestamp \<Rightarrow> ClientId \<Rightarrow> nat \<Rightarrow> QueuedMessage list" where
  "dequeueMessages db now target limit =
     take limit (order_rows (filter (ready now target) (message_queue db)))"

text \<open>
  \<^verbatim>\<open>incrementAttempts\<close>: \<^verbatim>\<open>next_attempt\<close> becomes the clock reading of the UPDATE
  plus \<open>delaySeconds\<close> seconds.
\<close>

definition incrementAttempts :: "Db \<Rightarrow> timestamp \<Rightarrow> nat \<Rightarrow> nat \<Rightarrow> Db" where
  "incrementAttempts db now qid delaySeconds =
     db\<lparr>message_queue :=
       map (\<lambda>q. if q_id q = qid
                then q\<lparr>q_attempts := q_attempts q + 1, q_next_attempt := now + 1000 * delaySeconds\<rparr>
                else q) (message_queue db)\<rparr>"

definition removeFromQueue :: "Db \<Rightarrow> string \<Rightarrow> bool \<times> Db" where
  "removeFromQueue db mid =
     (mid \<in> set (map q_message_id (message_queue db)),
      db\<lparr>message_queue := filter (\<lambda>q. q_message_id q \<noteq> mid) (message_queue db)\<rparr>)"

definition clearExhaustedMessages :: "Db \<Rightarrow> nat \<times> Db" where
  "clearExhaustedMessages db =
     (length (filter (\<lambda>q. q_max_attempts q \<le> int (q_attempts q)) (message_queue db)),
      db\<lparr>message_queue :=
        filter (\<lambda>q. \<not> q_max_attempts q \<le> int (q_attempts q)) (message_queue db)\<rparr>)"

section \<open>The client registry (mcp/clientRegistry.ts)\<close>

text \<open>The \<^verbatim>\<open>activeSessions\<close> map: client id to session id.\<close>

type_synonym ClientRegistry = "ClientId \<rightharpoonup> string"

definition setOnline :: "ClientRegistry \<Rightarrow> ClientId \<Rightarrow> string \<Rightarrow> ClientRegistry" where
  "setOnline reg cid sessionId = reg(cid \<mapsto> sessionId)"

definition setOffline :: "ClientRegistry \<Rightarrow> ClientId \<Rightarrow> ClientRegistry" where
  "setOffline reg cid = reg(cid := None)"

definition isOnline :: "ClientRegistry \<Rightarrow> ClientId \<Rightarrow> bool" where
  "isOnline reg cid \<longleftrightarrow> reg cid \<noteq> None"

definition getSessionId :: "ClientRegistry \<Rightarrow> ClientId \<Rightarrow> string option" where
  "getSessionId reg cid = reg cid"

definition clear :: "ClientRegistry \<Rightarrow> ClientRegistry" where
  "clear reg = Map.empty"

section \<open>Agent personas (agents/registry.ts)\<close>

text \<open>
  A persona record without its \<^verbatim>\<open>baseInstructions\<close>: the static prompt text is
  handed to the subprocess peer and read by no function modelled here.
\<close>

datatype AgentCategory = advisor | exploration | specialist

datatype AgentName = A_architect | A_oracle

record AgentPersona =
  p_name :: string
  p_description :: string
  p_category :: AgentCategory
  p_triggers :: "string list"
  p_sandbox :: "string option"

definition ARCHITECT :: AgentPersona where
  "ARCHITECT =
     \<lparr>p_name = ''architect'',
      p_description = ''Critical code reviewer and design advisor'',
      p_category = advisor,
      p_triggers = [''architecture'', ''design'', ''review'', ''should we'', ''approach'', ''refactor''],
      p_sandbox = None\<rparr>"

definition ORACLE :: AgentPersona where
  "ORACLE =
     \<lparr>p_name = ''oracle'',
      p_description = ''Strategic reasoning for debugging and complex problems'',
      p_category = advisor,
      p_triggers = [''why'', ''debug'', ''investigate'', ''understand'', ''root cause'', ''explain''],
      p_sandbox = None\<rparr>"

fun AGENT_PERSONAS :: "AgentName \<Rightarrow> AgentPersona" where
  "AGENT_PERSONAS A_architect = ARCHITECT"
| "AGENT_PERSONAS A_oracle = ORACLE"

definition DEFAULT_AGENT :: AgentName where
  "DEFAULT_AGENT = A_architect"

text \<open>
  \<^verbatim>\<open>getAgent\<close>: its callers pass an \<^verbatim>\<open>AgentName | undefined\<close> (the tool schema is
  \<^verbatim>\<open>z.enum(["architect", "oracle"]).optional()\<close>), so the name, when given, is a key of
  \<^verbatim>\<open>AGENT_PERSONAS\<close>.
\<close>

definition getAgent :: "AgentName option \<Rightarrow> AgentPersona" where
  "getAgent name = (case name of Some n \<Rightarrow> AGENT_PERSONAS n | None \<Rightarrow> AGENT_PERSONAS DEFAULT_AGENT)"

text \<open>
  A string is the list of the bytes of its UTF-8 encoding. The triggers are ASCII, so
  \<^verbatim>\<open>includes\<close>, the substring test on the text, is the substring test on the bytes.
  \<^verbatim>\<open>String.prototype.toLowerCase\<close> is a built-in of the language that follows the
  Unicode case mappings (it maps A to Z to a to z, and also, for instance, the Kelvin
  sign U+212A to k). It is not code of this repository: \<open>selectAgent\<close> takes it as its
  first argument.
\<close>

fun startsWith :: "string \<Rightarrow> string \<Rightarrow> bool" where
  "startsWith s [] = True"
| "startsWith [] (c # t) = False"
| "startsWith (a # s) (c # t) = (a = c \<and> startsWith s t)"

fun includes_str :: "string \<Rightarrow> string \<Rightarrow> bool" where
  "includes_str [] t = (t = [])"
| "includes_str (a # s) t = (startsWith (a # s) t \<or> includes_str s t)"

definition oracleTriggers :: "string list" where
  "oracleTriggers =
     [''why'', ''debug'', ''investigate'', ''root cause'', ''understand'', ''explain'',
      ''failing'', ''broken'', ''not working'', ''error'', ''bug'']"

fun selectAgent_loop :: "string \<Rightarrow> string list \<Rightarrow> AgentPersona" where
  "selectAgent_loop lower [] = ARCHITECT"
| "selectAgent_loop lower (trigger # rest) =
     (if includes_str lower trigger then ORACLE else selectAgent_loop lower rest)"

definition selectAgent :: "(string \<Rightarrow> string) \<Rightarrow> string \<Rightarrow> AgentPersona" where
  "selectAgent toLowerCase content = selectAgent_loop (toLowerCase content) oracleTriggers"

section \<open>The dispatcher (router/dispatcher.ts)\<close>

record SendMessageOpts =
  o_conversationId :: "string option"
  o_sender :: ClientId
  o_target :: ClientId
  o_content :: string
  o_messageType :: "MessageType option"
  o_priority :: "MessagePriority option"
  o_waitForResponse :: "bool option"
  o_timeoutMs :: "nat option"
  o_useOutputSchema :: "bool option"
  o_metadata :: "string option"
  o_agent :: "AgentName option"

record SendMessageResult =
  r_message :: Message
  r_conversation :: Conversation
  r_response :: "Message option"
  r_invoked :: "bool option"
  r_invokedViaMcp :: "bool option"
  r_invocationError :: "string option"
  r_selectedAgent :: "string option"

record CodexCallResult =
  cc_response :: string
  cc_conversationId :: "string option"

record InvocationResult =
  iv_success :: bool
  iv_stdout :: string
  iv_stderr :: string
  iv_exitCode :: "int option"
  iv_response :: "string option"

text \<open>
  What one call of \<^verbatim>\<open>sendMessage\<close> takes from outside the store: the three values
  \<^verbatim>\<open>randomUUID()\<close> may return (conversation, message, response message), the
  built-in \<^verbatim>\<open>String.prototype.toLowerCase\<close>, the
  answer of the persistent peer client to \<^verbatim>\<open>sendMessage(prompt, messageId, persona)\<close>
  (\<open>None\<close> when it returns null or throws) and the result of
  \<^verbatim>\<open>invokeCodexExec(db, message, context, {timeoutMs, useOutputSchema})\<close>. The
  invoker writes only the \<^verbatim>\<open>invocations\<close> table, which is not part of \<open>Db\<close>.
\<close>

record World =
  uuid_conversation :: string
  uuid_message :: string
  uuid_response :: string
  String_toLowerCase :: "string \<Rightarrow> string"
  codexMcpClient_sendMessage :: "string \<Rightarrow> string \<Rightarrow> AgentPersona \<Rightarrow> CodexCallResult option"
  invokeCodexExec :: "Message \<Rightarrow> string \<Rightarrow> nat \<Rightarrow> bool \<Rightarrow> InvocationResult"

record MessageDispatcher =
  d_clientRegistry :: "ClientRegistry option"
  d_codexMcpEnabled :: bool

definition ClientId_text :: "ClientId \<Rightarrow> string" where
  "ClientId_text c = (case c of claude \<Rightarrow> ''claude'' | codex \<Rightarrow> ''codex'')"

fun join :: "string \<Rightarrow> string list \<Rightarrow> string" where
  "join sep [] = []"
| "join sep [x] = x"
| "join sep (x # y # ys) = x @ sep @ join sep (y # ys)"

definition newline :: string where
  "newline = [CHR 0x0A]"

definition buildConversationContext :: "Db \<Rightarrow> string \<Rightarrow> string" where
  "buildConversationContext db conversationId =
     (let msgs = getConversationMessages db conversationId 20 0
      in if msgs = [] then []
         else join (newline @ newline)
                (map (\<lambda>m. ''['' @ ClientId_text (m_sender m) @ '']: '' @ m_content m) msgs))"

definition tryCodexMcpServer ::
  "MessageDispatcher \<Rightarrow> World \<Rightarrow> string \<Rightarrow> string \<Rightarrow> string \<Rightarrow> AgentPersona \<Rightarrow> string option" where
  "tryCodexMcpServer d w content conversationContext messageId persona =
     (if \<not> d_codexMcpEnabled d then None
      else
        let prompt =
              (if conversationContext \<noteq> []
               then ''Previous conversation:'' @ newline @ conversationContext @ newline @ newline
                    @ ''New message:'' @ newline @ content
               else content)
        in case codexMcpClient_sendMessage w prompt messageId persona of
             None \<Rightarrow> None
           | Some result \<Rightarrow> if cc_response result \<noteq> [] then Some (cc_response result) else None)"

definition getResponseType :: "MessageType option \<Rightarrow> MessageType option" where
  "getResponseType requestType =
     (case requestType of
        Some T_research_request \<Rightarrow> Some T_research_response
      | Some T_review_request \<Rightarrow> Some T_review_response
      | _ \<Rightarrow> Some T_message)"

text \<open>
  \<^verbatim>\<open>waitForResponse\<close>: the polling loop. \<open>elapsed\<close> is \<^verbatim>\<open>Date.now() - startTime\<close>
  on a clock that advances by the poll interval at every sleep; the interval (100, 150,
  225, ... up to 1000) is kept in whole milliseconds, as the timer takes it. No other
  task runs between two polls. The loop is not
  structurally recursive (an interval of 0 would poll forever), so it is a partial
  function: \<open>None\<close> is "does not return", \<open>Some r\<close> is the value returned.
\<close>

partial_function (option) waitForResponse_loop ::
  "Db \<Rightarrow> string \<Rightarrow> nat \<Rightarrow> nat \<Rightarrow> nat \<Rightarrow> Message option option" where
  "waitForResponse_loop db messageId timeoutMs elapsed pollInterval =
     (if elapsed < timeoutMs
      then (case getResponseToMessage db messageId of
              Some response \<Rightarrow> Some (Some response)
            | None \<Rightarrow>
                waitForResponse_loop db messageId timeoutMs (elapsed + pollInterval)
                  (min (pollInterval * 3 div 2) 1000))
      else Some None)"

declare waitForResponse_loop.simps [code]

definition waitForResponse :: "Db \<Rightarrow> string \<Rightarrow> nat \<Rightarrow> Message option option" where
  "waitForResponse db messageId timeoutMs = waitForResponse_loop db messageId timeoutMs 0 100"

definition priorityMap :: "MessagePriority \<Rightarrow> int" where
  "priorityMap p = (case p of P_urgent \<Rightarrow> 2 | P_high \<Rightarrow> 1 | P_normal \<Rightarrow> 0)"

text \<open>
  The three parts of \<^verbatim>\<open>sendMessage\<close>, in the order of the source. A thrown error
  leaves the statements already run in place (there is no transaction), so every part
  returns the store with its outcome.

  \<open>sendMessage_conversation\<close>: "Get or create conversation". An empty
  \<^verbatim>\<open>conversationId\<close> is falsy and creates a conversation, as an absent one does.
\<close>

definition sendMessage_conversation ::
  "World \<Rightarrow> Db \<Rightarrow> timestamp \<Rightarrow> SendMessageOpts \<Rightarrow> (error + Conversation) \<times> Db" where
  "sendMessage_conversation w db now opts =
     (let create =
            (case createConversation db now (uuid_conversation w)
                    \<lparr>ci_title = None, ci_project = None, ci_created_by = o_sender opts,
                     ci_metadata = None\<rparr> of
               Inl e \<Rightarrow> (Inl e, db)
             | Inr (conversation, db') \<Rightarrow> (Inr conversation, db'))
      in case o_conversationId opts of
           None \<Rightarrow> create
         | Some cid \<Rightarrow>
             if cid = [] then create
             else (case getConversation db cid of
                     None \<Rightarrow> (Inl (ConversationNotFound cid), db)
                   | Some existing \<Rightarrow> (Inr existing, db)))"

text \<open>
  \<open>sendMessage_respond\<close>: the response message of the offline-codex branch
  (sender and target swapped, \<^verbatim>\<open>response_to_id\<close> the original), then the original
  marked \<^verbatim>\<open>responded\<close>.
\<close>

definition sendMessage_respond ::
  "World \<Rightarrow> Db \<Rightarrow> timestamp \<Rightarrow> SendMessageOpts \<Rightarrow> Conversation \<Rightarrow> Message \<Rightarrow> string
     \<Rightarrow> SendMessageResult \<Rightarrow> (error + SendMessageResult) \<times> Db" where
  "sendMessage_respond w db now opts conversation message content result =
     (case createMessage db now (uuid_response w)
             \<lparr>mi_conversation_id = cv_id conversation, mi_sender = o_target opts,
              mi_target = o_sender opts, mi_content = content,
              mi_message_type = getResponseType (o_messageType opts),
              mi_priority = None, mi_response_to_id = Some (m_id message),
              mi_metadata = None\<rparr> of
        Inl e \<Rightarrow> (Inl e, db)
      | Inr (responseMessage, db') \<Rightarrow>
          (Inr (result\<lparr>r_response := Some responseMessage\<rparr>),
           updateMessageStatus db' now (m_id message) S_responded))"

text \<open>
  \<open>sendMessage_persona\<close>: "Select agent persona: explicit or auto-detect from content".
\<close>

definition sendMessage_persona :: "World \<Rightarrow> SendMessageOpts \<Rightarrow> AgentPersona" where
  "sendMessage_persona w opts =
     (case o_agent opts of
        Some a \<Rightarrow> getAgent (Some a)
      | None \<Rightarrow> selectAgent (String_toLowerCase w) (o_content opts))"

text \<open>
  \<open>sendMessage_targetOnline\<close>: \<^verbatim>\<open>this.clientRegistry?.isOnline(opts.target) ?? false\<close>,
  read from the in-memory registry.
\<close>

definition sendMessage_targetOnline :: "MessageDispatcher \<Rightarrow> ClientId \<Rightarrow> bool" where
  "sendMessage_targetOnline d target =
     (case d_clientRegistry d of None \<Rightarrow> False | Some reg \<Rightarrow> isOnline reg target)"

text \<open>\<open>sendMessage_route\<close>: the routing decision on \<^verbatim>\<open>targetOnline\<close>.\<close>

definition sendMessage_route ::
  "MessageDispatcher \<Rightarrow> World \<Rightarrow> Db \<Rightarrow> timestamp \<Rightarrow> SendMessageOpts \<Rightarrow> Conversation \<Rightarrow> Message
     \<Rightarrow> (error + SendMessageResult) \<times> Db" where
  "sendMessage_route d w db now opts conversation message =
     (let result = \<lparr>r_message = message, r_conversation = conversation, r_response = None,
                    r_invoked = None, r_invokedViaMcp = None, r_invocationError = None,
                    r_selectedAgent = None\<rparr>;
          targetOnline = sendMessage_targetOnline d (o_target opts)
      in if targetOnline
         then (Inr result, updateMessageStatus db now (m_id message) S_delivered)
         else if o_target opts = codex
         then
           (let conversationContext = buildConversationContext db (cv_id conversation);
                persona = sendMessage_persona w opts;
                result1 = result\<lparr>r_selectedAgent := Some (p_name persona)\<rparr>
            in case tryCodexMcpServer d w (o_content opts) conversationContext (m_id message) persona of
                 Some mcpResult \<Rightarrow>
                   sendMessage_respond w db now opts conversation message mcpResult
                     (result1\<lparr>r_invoked := Some True, r_invokedViaMcp := Some True\<rparr>)
               | None \<Rightarrow>
                   (let invocationResult =
                          invokeCodexExec w message conversationContext
                            (case o_timeoutMs opts of None \<Rightarrow> 300000 | Some t \<Rightarrow> t)
                            (case o_useOutputSchema opts of None \<Rightarrow> True | Some b \<Rightarrow> b);
                        result2 = result1\<lparr>r_invoked := Some True\<rparr>;
                        hasResponse = (case iv_response invocationResult of
                                         None \<Rightarrow> False | Some r \<Rightarrow> r \<noteq> []);
                        responded =
                          (case iv_response invocationResult of
                             None \<Rightarrow> (Inr result2, db)
                           | Some r \<Rightarrow>
                               if r \<noteq> []
                               then sendMessage_respond w db now opts conversation message r result2
                               else (Inr result2, db))
                    in case responded of
                         (Inl e, db') \<Rightarrow> (Inl e, db')
                       | (Inr result3, db') \<Rightarrow>
                           if \<not> iv_success invocationResult \<and> \<not> hasResponse
                           then (Inr (result3\<lparr>r_invocationError :=
                                        Some (if iv_stderr invocationResult \<noteq> []
                                              then iv_stderr invocationResult
                                              else ''Invocation failed with no output'')\<rparr>), db')
                           else (Inr result3, db')))
         else
           (case enqueueMessage db now
                   \<lparr>qi_message_id = m_id message, qi_target = o_target opts,
                    qi_priority = Some (priorityMap (case o_priority opts of
                                                       None \<Rightarrow> P_normal | Some p \<Rightarrow> p)),
                    qi_max_attempts = Some 5\<rparr> of
              Inl e \<Rightarrow> (Inl e, db)
            | Inr (row, db') \<Rightarrow> (Inr result, db')))"

text \<open>
  \<^verbatim>\<open>sendMessage\<close>. The outer \<open>option\<close> is \<open>None\<close> when the final wait does not
  return.
\<close>

definition sendMessage ::
  "MessageDispatcher \<Rightarrow> World \<Rightarrow> Db \<Rightarrow> timestamp \<Rightarrow> SendMessageOpts
     \<Rightarrow> ((error + SendMessageResult) \<times> Db) option" where
  "sendMessage d w db now opts =
     (case sendMessage_conversation w db now opts of
        (Inl e, db1) \<Rightarrow> Some (Inl e, db1)
      | (Inr conversation, db1) \<Rightarrow>
          (case createMessage db1 now (uuid_message w)
                  \<lparr>mi_conversation_id = cv_id conversation, mi_sender = o_sender opts,
                   mi_target = o_target opts, mi_content = o_content opts,
                   mi_message_type = o_messageType opts, mi_priority = o_priority opts,
                   mi_response_to_id = None, mi_metadata = o_metadata opts\<rparr> of
             Inl e \<Rightarrow> Some (Inl e, db1)
           | Inr (message, db2) \<Rightarrow>
               (case sendMessage_route d w db2 now opts conversation message of
                  (Inl e, db3) \<Rightarrow> Some (Inl e, db3)
                | (Inr result, db3) \<Rightarrow>
                    if o_waitForResponse opts = Some True \<and> r_response result = None
                    then (case waitForResponse db3 (m_id message)
                                 (case o_timeoutMs opts of None \<Rightarrow> 60000 | Some t \<Rightarrow> t) of
                            None \<Rightarrow> None
                          | Some None \<Rightarrow> Some (Inr result, db3)
                          | Some (Some response) \<Rightarrow>
                              Some (Inr (result\<lparr>r_response := Some response\<rparr>), db3))
                    else Some (Inr result, db3))))"

section \<open>The persistent peer client (router/codexMcpClient.ts)\<close>

text \<open>
  \<^verbatim>\<open>extractResponse(result: unknown)\<close> works on an arbitrary JavaScript value. Values
  are modelled as JSON-like trees; an object is its list of properties (the first entry
  of a key counts) and a number is an integer. \<open>js_truthy\<close> is JavaScript's truthiness,
  \<open>js_String\<close> is \<^verbatim>\<open>String(v)\<close>, \<open>js_get\<close> is property access \<^verbatim>\<open>v.key\<close> on a
  value that is not null or undefined, \<open>js_in\<close> is \<^verbatim>\<open>key in v\<close> on an object.
\<close>

datatype js =
  JUndefined | JNull | JBool bool | JNum int | JStr string | JArr "js list"
  | JObj "(string \<times> js) list"

definition digit_char :: "nat \<Rightarrow> char" where
  "digit_char n = ''0123456789'' ! n"

text \<open>The decimal numeral of a number, as a template literal or \<^verbatim>\<open>String\<close> renders it.\<close>

function decimal :: "nat \<Rightarrow> string" where
  "decimal n = (if 10 \<le> n then decimal (n div 10) else []) @ [digit_char (n mod 10)]"
  by pat_completeness auto
termination
  by (relation "measure id") auto

declare decimal.simps [simp del]

fun js_truthy :: "js \<Rightarrow> bool" where
  "js_truthy JUndefined = False"
| "js_truthy JNull = False"
| "js_truthy (JBool b) = b"
| "js_truthy (JNum n) = (n \<noteq> 0)"
| "js_truthy (JStr s) = (s \<noteq> [])"
| "js_truthy (JArr xs) = True"
| "js_truthy (JObj ps) = True"

fun js_String :: "js \<Rightarrow> string" where
  "js_String JUndefined = ''undefined''"
| "js_String JNull = ''null''"
| "js_String (JBool b) = (if b then ''true'' else ''false'')"
| "js_String (JNum n) = (if n < 0 then CHR ''-'' # decimal (nat (- n)) else decimal (nat n))"
| "js_String (JStr s) = s"
| "js_String (JArr xs) =
     join '','' (map (\<lambda>x. if x = JNull \<or> x = JUndefined then [] else js_String x) xs)"
| "js_String (JObj ps) = ''[object Object]''"

fun js_get :: "js \<Rightarrow> string \<Rightarrow> js" where
  "js_get (JObj ps) key = (case map_of ps key of None \<Rightarrow> JUndefined | Some v \<Rightarrow> v)"
| "js_get v key = JUndefined"

fun js_in :: "string \<Rightarrow> js \<Rightarrow> bool" where
  "js_in key (JObj ps) = (map_of ps key \<noteq> None)"
| "js_in key v = False"

fun js_is_object :: "js \<Rightarrow> bool" where
  "js_is_object (JObj ps) = True"
| "js_is_object (JArr xs) = True"
| "js_is_object v = False"

text \<open>
  The first loop of \<^verbatim>\<open>extractResponse\<close>: the first item of \<^verbatim>\<open>content\<close> that is an
  object with \<^verbatim>\<open>type === "text"\<close> and a \<^verbatim>\<open>text\<close> property ends the function with
  \<^verbatim>\<open>String(item.text)\<close>.
\<close>

fun extractResponse_loop :: "js list \<Rightarrow> string option" where
  "extractResponse_loop [] = None"
| "extractResponse_loop (item # rest) =
     (if js_is_object item \<and> js_in ''type'' item \<and> js_get item ''type'' = JStr ''text''
         \<and> js_in ''text'' item
      then Some (js_String (js_get item ''text''))
      else extractResponse_loop rest)"

text \<open>
  \<^verbatim>\<open>extractResponse\<close>. \<open>parse\<close> is \<^verbatim>\<open>JSON.parse\<close> (\<open>None\<close>: it throws). The result
  is the value returned, \<open>JNull\<close> for \<^verbatim>\<open>null\<close>. In the last step a parsed value of
  \<^verbatim>\<open>null\<close> makes \<^verbatim>\<open>parsed.response\<close> throw inside the \<^verbatim>\<open>try\<close>, which the
  \<^verbatim>\<open>catch\<close> answers like a parse error.
\<close>

definition extractResponse :: "(string \<Rightarrow> js option) \<Rightarrow> js \<Rightarrow> js" where
  "extractResponse parse result =
     (if \<not> js_truthy result \<or> \<not> js_is_object result then JNull
      else
        let content = js_get result ''content'';
            first_text = (case content of JArr items \<Rightarrow> extractResponse_loop items | _ \<Rightarrow> None);
            toolResult = js_get result ''toolResult'';
            content0_text =
              (case content of
                 JArr (c0 # _) \<Rightarrow> (if c0 = JNull \<or> c0 = JUndefined then JUndefined else js_get c0 ''text'')
               | _ \<Rightarrow> JUndefined)
        in case first_text of
             Some text \<Rightarrow> JStr text
           | None \<Rightarrow>
               if js_in ''toolResult'' result \<and> js_truthy toolResult
                  \<and> (case toolResult of JStr s \<Rightarrow> True | _ \<Rightarrow> False)
               then toolResult
               else if js_in ''toolResult'' result \<and> js_truthy toolResult
                  \<and> js_is_object toolResult \<and> js_in ''response'' toolResult
               then JStr (js_String (js_get toolResult ''response''))
               else if js_truthy content0_text
               then (case parse (js_String content0_text) of
                       None \<Rightarrow> content0_text
                     | Some JNull \<Rightarrow> content0_text
                     | Some JUndefined \<Rightarrow> content0_text
                     | Some parsed \<Rightarrow>
                         if js_truthy (js_get parsed ''response'')
                         then js_get parsed ''response'' else JNull)
               else JNull)"

text \<open>
  The \<^verbatim>\<open>response\<close> field of what \<^verbatim>\<open>CodexMcpClient.sendMessage\<close> returns for a tool
  call result: \<^verbatim>\<open>response ?? ""\<close>.
\<close>

definition CodexMcpClient_response :: "(string \<Rightarrow> js option) \<Rightarrow> js \<Rightarrow> js" where
  "CodexMcpClient_response parse result =
     (case extractResponse parse result of JNull \<Rightarrow> JStr [] | JUndefined \<Rightarrow> JStr [] | v \<Rightarrow> v)"

section \<open>The event store (mcp/eventStore.ts)\<close>

text \<open>
  The \<^verbatim>\<open>indexById\<close> map of a stream is a JavaScript \<^verbatim>\<open>Map\<close>: a list of entries with
  distinct keys in insertion order. \<^verbatim>\<open>set\<close> overwrites the value of a key in place or
  appends a new entry, \<^verbatim>\<open>delete\<close> removes the entry, \<^verbatim>\<open>size\<close> is the length.
\<close>

fun Map_set :: "('k \<times> 'v) list \<Rightarrow> 'k \<Rightarrow> 'v \<Rightarrow> ('k \<times> 'v) list" where
  "Map_set [] k v = [(k, v)]"
| "Map_set ((k', v') # m) k v = (if k' = k then (k, v) # m else (k', v') # Map_set m k v)"

definition Map_delete :: "('k \<times> 'v) list \<Rightarrow> 'k \<Rightarrow> ('k \<times> 'v) list" where
  "Map_delete m k = filter (\<lambda>e. fst e \<noteq> k) m"

definition Map_get :: "('k \<times> 'v) list \<Rightarrow> 'k \<Rightarrow> 'v option" where
  "Map_get m k = map_of m k"

record 'm EventRecord =
  ev_id :: string
  ev_ts :: int
  ev_message :: 'm

record 'm StreamState =
  nextSeq :: nat
  events :: "'m EventRecord list"
  indexById :: "(string \<times> nat) list"

record 'm InMemoryEventStore =
  streams :: "string \<rightharpoonup> 'm StreamState"
  ttlMs :: int
  maxEventsPerStream :: nat

definition makeEventId :: "string \<Rightarrow> nat \<Rightarrow> string" where
  "makeEventId streamId seq = streamId @ '':'' @ decimal seq"

definition parseStreamId :: "string \<Rightarrow> string" where
  "parseStreamId eventId =
     (if CHR '':'' \<in> set eventId then takeWhile (\<lambda>c. c \<noteq> CHR '':'') eventId else [])"

text \<open>
  \<^verbatim>\<open>pruneStream\<close>, in three steps. \<open>pruneStream_ttl\<close> is the \<^verbatim>\<open>while\<close> loop: it
  shifts every leading event older than the cutoff and deletes its id from the index.
  \<open>rebuildIndex\<close> is \<^verbatim>\<open>indexById.clear()\<close> followed by the \<^verbatim>\<open>forEach\<close> that sets
  each id to its position. \<open>pruneStream_overflow\<close> is the \<^verbatim>\<open>for\<close> loop of the cap.
\<close>

fun pruneStream_ttl ::
  "int \<Rightarrow> 'm EventRecord list \<Rightarrow> (string \<times> nat) list
     \<Rightarrow> 'm EventRecord list \<times> (string \<times> nat) list" where
  "pruneStream_ttl cutoff [] index = ([], index)"
| "pruneStream_ttl cutoff (ev # rest) index =
     (if ev_ts ev < cutoff then pruneStream_ttl cutoff rest (Map_delete index (ev_id ev))
      else (ev # rest, index))"

definition rebuildIndex :: "'m EventRecord list \<Rightarrow> (string \<times> nat) list" where
  "rebuildIndex evs =
     fold (\<lambda>(ev, idx) index. Map_set index (ev_id ev) idx) (zip evs [0..<length evs]) []"

fun pruneStream_overflow ::
  "nat \<Rightarrow> 'm EventRecord list \<Rightarrow> (string \<times> nat) list
     \<Rightarrow> 'm EventRecord list \<times> (string \<times> nat) list" where
  "pruneStream_overflow 0 evs index = (evs, index)"
| "pruneStream_overflow (Suc n) [] index = ([], index)"
| "pruneStream_overflow (Suc n) (ev # rest) index =
     pruneStream_overflow n rest (Map_delete index (ev_id ev))"

definition pruneStream_state :: "int \<Rightarrow> int \<Rightarrow> nat \<Rightarrow> 'm StreamState \<Rightarrow> 'm StreamState" where
  "pruneStream_state now ttl maxEvents s =
     (let cutoff = now - ttl;
          (evs1, index1) = pruneStream_ttl cutoff (events s) (indexById s);
          index2 = (if length index1 \<noteq> length evs1 then rebuildIndex evs1 else index1);
          (evs3, index3) =
            (if maxEvents < length evs1
             then (let overflow = length evs1 - maxEvents;
                       (evs2, index') = pruneStream_overflow overflow evs1 index2
                   in (evs2, rebuildIndex evs2))
             else (evs1, index2))
      in s\<lparr>events := evs3, indexById := index3\<rparr>)"

definition pruneStream :: "'m InMemoryEventStore \<Rightarrow> int \<Rightarrow> string \<Rightarrow> 'm InMemoryEventStore" where
  "pruneStream store now streamId =
     (case streams store streamId of
        None \<Rightarrow> store
      | Some s \<Rightarrow>
          store\<lparr>streams := (streams store)
            (streamId \<mapsto> pruneStream_state now (ttlMs store) (maxEventsPerStream store) s)\<rparr>)"

definition storeEvent ::
  "'m InMemoryEventStore \<Rightarrow> int \<Rightarrow> string \<Rightarrow> 'm \<Rightarrow> string \<times> 'm InMemoryEventStore" where
  "storeEvent store now streamId message =
     (let s0 = (case streams store streamId of
                  None \<Rightarrow> \<lparr>nextSeq = 1, events = [], indexById = []\<rparr>
                | Some s \<Rightarrow> s);
          s1 = pruneStream_state now (ttlMs store) (maxEventsPerStream store) s0;
          eid = makeEventId streamId (nextSeq s1);
          rec = \<lparr>ev_id = eid, ev_ts = now, ev_message = message\<rparr>;
          s2 = s1\<lparr>nextSeq := nextSeq s1 + 1,
                  indexById := Map_set (indexById s1) eid (length (events s1)),
                  events := events s1 @ [rec]\<rparr>
      in (eid, store\<lparr>streams := (streams store)(streamId \<mapsto> s2)\<rparr>))"

text \<open>
  \<^verbatim>\<open>replayEventsAfter\<close>: the result is the string returned, the list of
  \<^verbatim>\<open>(eventId, message)\<close> pairs handed to \<^verbatim>\<open>send\<close> in order, and the store (pruning
  changes it).
\<close>

definition replayEventsAfter ::
  "'m InMemoryEventStore \<Rightarrow> int \<Rightarrow> string
     \<Rightarrow> string \<times> (string \<times> 'm) list \<times> 'm InMemoryEventStore" where
  "replayEventsAfter store now lastEventId =
     (if lastEventId = [] then ([], [], store)
      else
        let streamId = parseStreamId lastEventId
        in if streamId = [] then ([], [], store)
           else (case streams store streamId of
                   None \<Rightarrow> ([], [], store)
                 | Some s0 \<Rightarrow>
                     let s = pruneStream_state now (ttlMs store) (maxEventsPerStream store) s0;
                         store' = store\<lparr>streams := (streams store)(streamId \<mapsto> s)\<rparr>
                     in (case Map_get (indexById s) lastEventId of
                           None \<Rightarrow> ([], [], store')
                         | Some startIdx \<Rightarrow>
                             (streamId,
                              map (\<lambda>ev. (ev_id ev, ev_message ev)) (drop (startIdx + 1) (events s)),
                              store'))))"

section \<open>The queue processor (router/queueProcessor.ts)\<close>

text \<open>
  \<^verbatim>\<open>scheduleRetry\<close>: \<^verbatim>\<open>item\<close> is the row as \<^verbatim>\<open>dequeueMessages\<close> returned it.
  \<^verbatim>\<open>Math.pow(2, item.attempts)\<close> is exact in floating point as long as it is finite,
  and \<^verbatim>\<open>Math.min\<close> with 3600 returns 3600 once \<open>30 * 2 ^ n\<close> exceeds it (also when
  the power overflows to infinity), so the delay is the natural number below.
\<close>

definition scheduleRetry :: "Db \<Rightarrow> timestamp \<Rightarrow> QueuedMessage \<Rightarrow> Db" where
  "scheduleRetry db now item =
     (let baseDelay = 30;
          backoffDelay = baseDelay * 2 ^ q_attempts item;
          maxDelay = 3600;
          delay = min backoffDelay maxDelay
      in incrementAttempts db now (q_id item) delay)"

datatype DeliveryResult = Delivered | Retry | Removed

text \<open>
  \<^verbatim>\<open>attemptDelivery\<close> and \<^verbatim>\<open>processQueueForTarget\<close> ask the store
  (\<^verbatim>\<open>isClientOnline(this.db, target)\<close>, the \<^verbatim>\<open>clients.status\<close> column) whether the
  target is online: a \<^verbatim>\<open>QueueProcessor\<close> is constructed from the database handle and
  the poll interval only. No statement they run can violate a constraint, so the
  \<^verbatim>\<open>catch\<close> branch of the loop is not reached in the model.
\<close>

definition attemptDelivery :: "Db \<Rightarrow> timestamp \<Rightarrow> ClientId \<Rightarrow> QueuedMessage \<Rightarrow> DeliveryResult \<times> Db" where
  "attemptDelivery db now target item =
     (case getMessage db (q_message_id item) of
        None \<Rightarrow> (Removed, snd (removeFromQueue db (q_message_id item)))
      | Some message \<Rightarrow>
          if \<not> isClientOnline db target
          then (Retry, scheduleRetry db now item)
          else (Delivered,
                snd (removeFromQueue (updateMessageStatus db now (m_id message) S_delivered)
                       (q_message_id item))))"

text \<open>The loop over the dequeued rows, with its two counters (delivered, retried).\<close>

fun processQueue_items ::
  "timestamp \<Rightarrow> ClientId \<Rightarrow> QueuedMessage list \<Rightarrow> nat \<times> nat \<times> Db \<Rightarrow> nat \<times> nat \<times> Db" where
  "processQueue_items now target [] acc = acc"
| "processQueue_items now target (item # rest) (delivered, retried, db) =
     (case attemptDelivery db now target item of
        (Delivered, db') \<Rightarrow> processQueue_items now target rest (delivered + 1, retried, db')
      | (Retry, db') \<Rightarrow> processQueue_items now target rest (delivered, retried + 1, db')
      | (Removed, db') \<Rightarrow> processQueue_items now target rest (delivered, retried, db'))"

definition processQueueForTarget :: "Db \<Rightarrow> timestamp \<Rightarrow> ClientId \<Rightarrow> nat \<times> nat \<times> Db" where
  "processQueueForTarget db now target =
     (if \<not> isClientOnline db target then (0, 0, db)
      else
        let queued = dequeueMessages db now target 10
        in if queued = [] then (0, 0, db)
           else processQueue_items now target queued (0, 0, db))"

definition CLIENTS :: "ClientId list" where
  "CLIENTS = [claude, codex]"

definition processQueue :: "Db \<Rightarrow> timestamp \<Rightarrow> Db" where
  "processQueue db now =
     fold (\<lambda>target db'. snd (snd (processQueueForTarget db' now target))) CLIENTS db"

definition onClientOnline :: "Db \<Rightarrow> timestamp \<Rightarrow> ClientId \<Rightarrow> Db" where
  "onClientOnline db now clientId = snd (snd (processQueueForTarget db now clientId))"

section \<open>The process state and the session hooks (main.ts, mcp/http.ts)\<close>

text \<open>
  \<^verbatim>\<open>runHttpMode\<close> opens the database file, creates an empty \<^verbatim>\<open>ClientRegistry\<close> and a
  \<^verbatim>\<open>QueueProcessor(db)\<close>. \<^verbatim>\<open>migrate\<close> runs \<^verbatim>\<open>schema.sql\<close>: on a new file it
  creates the tables and the two client rows; on an existing file
  \<^verbatim>\<open>CREATE TABLE IF NOT EXISTS\<close> and \<^verbatim>\<open>INSERT OR IGNORE\<close> leave every row as
  the previous run left it.
\<close>

record Process =
  proc_registry :: ClientRegistry
  proc_db :: Db

definition new_database :: "timestamp \<Rightarrow> Db" where
  "new_database now =
     \<lparr>clients =
        [\<lparr>cl_id = claude, cl_display_name = ''Claude Code CLI'', cl_last_seen_at = None,
          cl_session_id = None, cl_status = offline, cl_created_at = now\<rparr>,
         \<lparr>cl_id = codex, cl_display_name = ''OpenAI Codex CLI'', cl_last_seen_at = None,
          cl_session_id = None, cl_status = offline, cl_created_at = now\<rparr>],
      conversations = [], messages = [], message_queue = []\<rparr>"

definition runHttpMode :: "Db \<Rightarrow> Process" where
  "runHttpMode database_file = \<lparr>proc_registry = Map.empty, proc_db = database_file\<rparr>"

text \<open>
  One drain of the queue for a target inside the running process
  (\<^verbatim>\<open>queueProcessor.processQueueForTarget(target)\<close>): the processor works on the
  database handle; the registry of the process is not among its fields.
\<close>

definition drain :: "Process \<Rightarrow> timestamp \<Rightarrow> ClientId \<Rightarrow> Process" where
  "drain s now target =
     s\<lparr>proc_db := snd (snd (processQueueForTarget (proc_db s) now target))\<rparr>"

text \<open>The \<^verbatim>\<open>onsessioninitialized\<close> and \<^verbatim>\<open>onclose\<close> hooks of a session.\<close>

definition onsessioninitialized :: "Process \<Rightarrow> timestamp \<Rightarrow> ClientId option \<Rightarrow> string \<Rightarrow> Process" where
  "onsessioninitialized s now clientId sid =
     (case clientId of
        None \<Rightarrow> s
      | Some c \<Rightarrow>
          \<lparr>proc_registry = setOnline (proc_registry s) c sid,
           proc_db = onClientOnline (updateClientStatus (proc_db s) now c online (Some sid)) now c\<rparr>)"

definition onclose :: "Process \<Rightarrow> ClientId option \<Rightarrow> Process" where
  "onclose s clientId =
     (case clientId of
        None \<Rightarrow> s
      | Some c \<Rightarrow>
          \<lparr>proc_registry = setOffline (proc_registry s) c, proc_db = setClientOffline (proc_db s) c\<rparr>)"

section \<open>The tool server (mcp/server.ts)\<close>

text \<open>
  The handler of \<^verbatim>\<open>mark_message_read\<close>; \<open>clientId\<close> is the identity of the session
  (\<^verbatim>\<open>getClientId()\<close>).
\<close>

definition mark_message_read :: "Db \<Rightarrow> timestamp \<Rightarrow> ClientId option \<Rightarrow> string \<Rightarrow> error + Db" where
  "mark_message_read db now clientId message_id =
     (case clientId of
        None \<Rightarrow> Inl UnknownClient
      | Some c \<Rightarrow>
          (case getMessage db message_id of
             None \<Rightarrow> Inl MessageNotFound
           | Some message \<Rightarrow>
               if m_target message \<noteq> c then Inl NotTheTarget
               else Inr (updateMessageStatus db now message_id S_read)))"

section \<open>Example states and auxiliary predicates\<close>

text \<open>
  Concrete stores, option records and outcomes on which the functions above are
  evaluated below, and the postcondition \<open>route_post\<close> of the routing step.
\<close>

text \<open>A queue of six rows for the queue functions.\<close>

definition qrow :: "nat \<Rightarrow> string \<Rightarrow> ClientId \<Rightarrow> int \<Rightarrow> nat \<Rightarrow> int \<Rightarrow> timestamp \<Rightarrow> QueuedMessage" where
  "qrow i mid t p a mx nxt =
     \<lparr>q_id = i, q_message_id = mid, q_target = t, q_priority = p, q_attempts = a,
      q_max_attempts = mx, q_next_attempt = nxt, q_created_at = 0\<rparr>"

definition example_queue_db :: Db where
  "example_queue_db =
     \<lparr>clients = [], conversations = [], messages = [],
      message_queue =
        [qrow 1 ''m1'' claude 0 0 5 10,
         qrow 2 ''m2'' claude 2 1 5 50,
         qrow 3 ''m3'' codex 2 0 5 0,
         qrow 4 ''m4'' claude 1 5 5 0,
         qrow 5 ''m5'' claude 2 0 5 20,
         qrow 6 ''m6'' claude 1 0 5 200]\<rparr>"

text \<open>
  A lowercasing function for the examples. It agrees with the built-in on every text
  made of ASCII characters and Kelvin signs (U+212A, the bytes E2 84 AA), which the
  built-in maps to k.
\<close>

definition KELVIN_SIGN :: string where
  "KELVIN_SIGN = [CHR 0xE2, CHR 0x84, CHR 0xAA]"

definition ascii_toLowerCase :: "char \<Rightarrow> char" where
  "ascii_toLowerCase c =
     (case map_of (zip ''ABCDEFGHIJKLMNOPQRSTUVWXYZ'' ''abcdefghijklmnopqrstuvwxyz'') c of
        None \<Rightarrow> c
      | Some l \<Rightarrow> l)"

fun example_toLowerCase :: "string \<Rightarrow> string" where
  "example_toLowerCase (a # b # c # s) =
     (if [a, b, c] = KELVIN_SIGN then CHR ''k'' # example_toLowerCase s
      else ascii_toLowerCase a # example_toLowerCase (b # c # s))"
| "example_toLowerCase (a # s) = ascii_toLowerCase a # example_toLowerCase s"
| "example_toLowerCase [] = []"

text \<open>
  "Offline claude is enqueued": on a new database only codex is registered, and codex
  sends "ping" with priority high to claude. The peer process of \<open>example_world\<close>
  cannot be started.
\<close>

definition example_world :: World where
  "example_world =
     \<lparr>uuid_conversation = ''c1'', uuid_message = ''m1'', uuid_response = ''r1'',
      String_toLowerCase = example_toLowerCase,
      codexMcpClient_sendMessage = (\<lambda>prompt messageId persona. None),
      invokeCodexExec = (\<lambda>message context timeoutMs useOutputSchema.
         \<lparr>iv_success = False, iv_stdout = [], iv_stderr = ''spawn codex ENOENT'',
          iv_exitCode = None, iv_response = None\<rparr>)\<rparr>"

definition ping_opts :: SendMessageOpts where
  "ping_opts =
     \<lparr>o_conversationId = None, o_sender = codex, o_target = claude, o_content = ''ping'',
      o_messageType = None, o_priority = Some P_high, o_waitForResponse = Some True,
      o_timeoutMs = Some 60000, o_useOutputSchema = None, o_metadata = None, o_agent = None\<rparr>"

definition codex_online_dispatcher :: MessageDispatcher where
  "codex_online_dispatcher =
     \<lparr>d_clientRegistry = Some [codex \<mapsto> ''s2''], d_codexMcpEnabled = True\<rparr>"

definition one_message_db :: Db where
  "one_message_db =
     (new_database 0)\<lparr>
       conversations :=
         [\<lparr>cv_id = ''c1'', cv_title = None, cv_project = None, cv_status = C_active,
           cv_created_by = codex, cv_created_at = 5, cv_updated_at = 5, cv_closed_at = None,
           cv_summary = None, cv_metadata = None\<rparr>],
       messages :=
         [\<lparr>m_id = ''m1'', m_conversation_id = ''c1'', m_sender = codex, m_target = claude,
           m_content = ''ping'', m_message_type = T_message, m_priority = P_high,
           m_status = S_pending, m_response_to_id = None, m_created_at = 5,
           m_delivered_at = None, m_read_at = None, m_metadata = None\<rparr>]\<rparr>"

text \<open>
  What the routing step leaves behind: the messages before the call followed by a
  non-empty list of messages of the conversation, the same conversation ids, and a
  result that carries the message and the conversation.
\<close>

definition route_post ::
  "Message list \<Rightarrow> Conversation \<Rightarrow> Message \<Rightarrow> Db \<Rightarrow> (error + SendMessageResult) \<times> Db \<Rightarrow> bool" where
  "route_post old conv message db2 r \<longleftrightarrow>
     (\<exists>new. messages (snd r) = old @ new \<and> new \<noteq> []
            \<and> (\<forall>m\<in>set new. m_conversation_id m = cv_id conv))
     \<and> map cv_id (conversations (snd r)) = map cv_id (conversations db2)
     \<and> (case fst r of Inl e \<Rightarrow> True
         | Inr res \<Rightarrow> r_message res = message \<and> r_conversation res = conv)"

definition ping_result :: SendMessageResult where
  "ping_result =
     \<lparr>r_message =
        \<lparr>m_id = ''m1'', m_conversation_id = ''c1'', m_sender = codex, m_target = claude,
         m_content = ''ping'', m_message_type = T_message, m_priority = P_high,
         m_status = S_pending, m_response_to_id = None, m_created_at = 5,
         m_delivered_at = None, m_read_at = None, m_metadata = None\<rparr>,
      r_conversation =
        \<lparr>cv_id = ''c1'', cv_title = None, cv_project = None, cv_status = C_active,
         cv_created_by = codex, cv_created_at = 5, cv_updated_at = 5, cv_closed_at = None,
         cv_summary = None, cv_metadata = None\<rparr>,
      r_response = None, r_invoked = None, r_invokedViaMcp = None,
      r_invocationError = None, r_selectedAgent = None\<rparr>"

definition ping_db :: Db where
  "ping_db =
     one_message_db\<lparr>message_queue :=
       [\<lparr>q_id = 1, q_message_id = ''m1'', q_target = claude, q_priority = 1, q_attempts = 0,
         q_max_attempts = 5, q_next_attempt = 5, q_created_at = 5\<rparr>]\<rparr>"

text \<open>A send into the existing conversation c1 with both assistants registered.\<close>

definition both_online_dispatcher :: MessageDispatcher where
  "both_online_dispatcher =
     \<lparr>d_clientRegistry = Some [claude \<mapsto> ''s1'', codex \<mapsto> ''s2''], d_codexMcpEnabled = True\<rparr>"

definition hello_opts :: SendMessageOpts where
  "hello_opts =
     \<lparr>o_conversationId = Some ''c1'', o_sender = claude, o_target = codex, o_content = ''hello'',
      o_messageType = None, o_priority = None, o_waitForResponse = Some False,
      o_timeoutMs = None, o_useOutputSchema = None, o_metadata = None, o_agent = None\<rparr>"

text \<open>
  "Offline codex": only claude is registered, claude asks codex "Why is X failing?" and
  the persistent peer answers.
\<close>

definition replying_world :: World where
  "replying_world =
     example_world\<lparr>codexMcpClient_sendMessage :=
       (\<lambda>prompt messageId persona.
          Some \<lparr>cc_response = ''X reads a stale index'', cc_conversationId = Some ''t1''\<rparr>)\<rparr>"

definition ask_opts :: SendMessageOpts where
  "ask_opts =
     \<lparr>o_conversationId = None, o_sender = claude, o_target = codex,
      o_content = ''Why is X failing?'',
      o_messageType = None, o_priority = None, o_waitForResponse = Some True,
      o_timeoutMs = Some 60000, o_useOutputSchema = None, o_metadata = None, o_agent = None\<rparr>"

definition claude_online_dispatcher :: MessageDispatcher where
  "claude_online_dispatcher =
     \<lparr>d_clientRegistry = Some [claude \<mapsto> ''s1''], d_codexMcpEnabled = True\<rparr>"

definition ask_message :: Message where
  "ask_message =
     \<lparr>m_id = ''m1'', m_conversation_id = ''c1'', m_sender = claude, m_target = codex,
      m_content = ''Why is X failing?'', m_message_type = T_message, m_priority = P_normal,
      m_status = S_pending, m_response_to_id = None, m_created_at = 5,
      m_delivered_at = None, m_read_at = None, m_metadata = None\<rparr>"

definition ask_response :: Message where
  "ask_response =
     \<lparr>m_id = ''r1'', m_conversation_id = ''c1'', m_sender = codex, m_target = claude,
      m_content = ''X reads a stale index'', m_message_type = T_message,
      m_priority = P_normal, m_status = S_pending, m_response_to_id = Some ''m1'',
      m_created_at = 5, m_delivered_at = None, m_read_at = None, m_metadata = None\<rparr>"

definition ask_conversation :: Conversation where
  "ask_conversation =
     \<lparr>cv_id = ''c1'', cv_title = None, cv_project = None, cv_status = C_active,
      cv_created_by = claude, cv_created_at = 5, cv_updated_at = 5, cv_closed_at = None,
      cv_summary = None, cv_metadata = None\<rparr>"

definition ask_result :: SendMessageResult where
  "ask_result =
     \<lparr>r_message = ask_message, r_conversation = ask_conversation,
      r_response = Some ask_response, r_invoked = Some True, r_invokedViaMcp = Some True,
      r_invocationError = None, r_selectedAgent = Some ''oracle''\<rparr>"

definition ask_db :: Db where
  "ask_db =
     (new_database 0)\<lparr>
       conversations := [ask_conversation],
       messages := [ask_message\<lparr>m_status := S_responded\<rparr>, ask_response]\<rparr>"

text \<open>
  A store in which \<^verbatim>\<open>clients.status\<close> of claude is online, and a process restarted on
  the database file of a process that registered a claude session and never closed it.
\<close>

definition claude_marked_online_db :: Db where
  "claude_marked_online_db = updateClientStatus ping_db 6 claude online (Some ''s1'')"

definition restarted_process :: Process where
  "restarted_process =
     runHttpMode (proc_db (onsessioninitialized (runHttpMode (new_database 0)) 1 (Some claude) ''s1''))"

text \<open>A tool call result whose only content item is a text holding JSON.\<close>

definition response_item :: js where
  \<open>response_item = JObj [(''type'', JStr ''text''), (''text'', JStr ''{"response":"hi"}'')]\<close>

definition tool_result :: js where
  "tool_result = JObj [(''content'', JArr [response_item])]"

definition example_parse :: "string \<Rightarrow> js option" where
  \<open>example_parse s =
     (if s = ''{"response":"hi"}'' then Some (JObj [(''response'', JStr ''hi'')]) else None)\<close>

text \<open>
  An event store after three events of stream s, stored at 0 ms, 600000 ms and
  600001 ms.
\<close>

definition stored_three :: "int \<Rightarrow> nat \<Rightarrow> nat InMemoryEventStore" where
  "stored_three ttl cap =
     snd (storeEvent
       (snd (storeEvent
         (snd (storeEvent \<lparr>streams = Map.empty, ttlMs = ttl, maxEventsPerStream = cap\<rparr>
                 0 ''s'' 101))
         600000 ''s'' 102))
       600001 ''s'' 103)"

section \<open>Verification\<close>

subsection \<open>The queue: dequeue order, backoff, sweep, defaults\<close>

lemma mset_insert_row: "mset (insert_row x ys) = add_mset x (mset ys)"
  by (induction ys) auto

lemma mset_order_rows: "mset (order_rows xs) = mset xs"
  by (induction xs) (auto simp: order_rows_def mset_insert_row)

lemma set_insert_row: "set (insert_row x ys) = insert x (set ys)"
  by (induction ys) auto

lemma queue_before_total: "queue_before a b \<or> queue_before b a"
  by (auto simp: queue_before_def)

lemma queue_before_trans: "queue_before a b \<Longrightarrow> queue_before b c \<Longrightarrow> queue_before a c"
  by (auto simp: queue_before_def)

lemma sorted_insert_row:
  "sorted_wrt queue_before ys \<Longrightarrow> sorted_wrt queue_before (insert_row x ys)"
proof (induction ys)
  case Nil
  then show ?case by simp
next
  case (Cons y ys)
  show ?case
  proof (cases "queue_before x y")
    case True
    with Cons.prems show ?thesis
      by (auto intro: queue_before_trans)
  next
    case False
    then have "queue_before y x" using queue_before_total by blast
    with False Cons show ?thesis
      by (auto simp: set_insert_row)
  qed
qed

lemma sorted_order_rows: "sorted_wrt queue_before (order_rows xs)"
  by (induction xs) (auto simp: order_rows_def sorted_insert_row)

lemma length_order_rows: "length (order_rows xs) = length xs"
  using mset_order_rows [of xs] by (metis size_mset)

lemma sorted_wrt_take_drop:
  assumes "sorted_wrt P xs" "r \<in> set (take n xs)" "q \<in> set (drop n xs)"
  shows "P r q"
proof -
  have "sorted_wrt P (take n xs @ drop n xs)" using assms(1) by simp
  then show ?thesis using assms(2,3) unfolding sorted_wrt_append by blast
qed

lemma mset_take_subset: "mset (take n xs) \<subseteq># mset xs"
proof -
  have "mset (take n xs) + mset (drop n xs) = mset xs"
    by (metis append_take_drop_id mset_append)
  then show ?thesis by (metis mset_subset_eq_add_left)
qed

text \<open>
  \<^bold>\<open>Claim C7.\<close> For every target and limit, \<^verbatim>\<open>dequeueMessages\<close> returns rows of the
  queue whose target is the argument, whose next\_attempt is at or before the current
  time and whose attempts are strictly below max\_attempts (no row more often than the
  table holds it), ordered by priority descending and then next\_attempt ascending; it
  returns \<open>limit\<close> of them, or all of them when fewer qualify, and a qualifying row
  that is left out comes no earlier in that order than any row returned.
\<close>

theorem dequeueMessages_spec:
  "mset (dequeueMessages db now target limit)
     \<subseteq># mset (filter (\<lambda>q. q_target q = target \<and> q_next_attempt q \<le> now
                              \<and> int (q_attempts q) < q_max_attempts q) (message_queue db))
   \<and> sorted_wrt (\<lambda>a b. q_priority b < q_priority a
                     \<or> (q_priority a = q_priority b \<and> q_next_attempt a \<le> q_next_attempt b))
        (dequeueMessages db now target limit)
   \<and> length (dequeueMessages db now target limit)
       = min limit (length (filter (\<lambda>q. q_target q = target \<and> q_next_attempt q \<le> now
                              \<and> int (q_attempts q) < q_max_attempts q) (message_queue db)))
   \<and> (\<forall>r \<in> set (dequeueMessages db now target limit).
        \<forall>q \<in> set (message_queue db).
          q_target q = target \<and> q_next_attempt q \<le> now \<and> int (q_attempts q) < q_max_attempts q
          \<and> q \<notin> set (dequeueMessages db now target limit)
          \<longrightarrow> q_priority q < q_priority r
              \<or> (q_priority r = q_priority q \<and> q_next_attempt r \<le> q_next_attempt q))"
proof -
  let ?rows = "filter (ready now target) (message_queue db)"
  let ?ord = "order_rows ?rows"
  have R: "dequeueMessages db now target limit = take limit ?ord"
    by (simp add: dequeueMessages_def)
  have rdy: "(\<lambda>q. q_target q = target \<and> q_next_attempt q \<le> now
                 \<and> int (q_attempts q) < q_max_attempts q) = ready now target"
    by (simp add: ready_def fun_eq_iff)
  have qb: "(\<lambda>a b. q_priority b < q_priority a
                \<or> (q_priority a = q_priority b \<and> q_next_attempt a \<le> q_next_attempt b))
            = queue_before"
    by (simp add: queue_before_def fun_eq_iff)
  have p1: "mset (take limit ?ord) \<subseteq># mset ?rows"
    using mset_take_subset [of limit ?ord] by (simp add: mset_order_rows)
  have p2: "sorted_wrt queue_before (take limit ?ord)"
    by (simp add: sorted_order_rows sorted_wrt_take)
  have p3: "length (take limit ?ord) = min limit (length ?rows)"
    by (simp add: length_order_rows min.commute)
  have p4: "queue_before r q"
    if r: "r \<in> set (take limit ?ord)" and q: "q \<in> set (message_queue db)"
      and qr: "ready now target q" and nq: "q \<notin> set (take limit ?ord)" for r q
  proof -
    have "q \<in> set ?rows" using q qr by simp
    then have "q \<in> set ?ord" by (metis mset_order_rows set_mset_mset)
    then have "q \<in> set (take limit ?ord) \<union> set (drop limit ?ord)"
      by (metis append_take_drop_id set_append)
    with nq have "q \<in> set (drop limit ?ord)" by blast
    with r show ?thesis
      using sorted_wrt_take_drop [OF sorted_order_rows] by blast
  qed
  have p5: "\<forall>r \<in> set (take limit ?ord). \<forall>q \<in> set (message_queue db).
              ready now target q \<and> q \<notin> set (take limit ?ord) \<longrightarrow> queue_before r q"
    using p4 by blast
  from p1 p2 p3 p5 show ?thesis
    unfolding R rdy qb by (simp add: ready_def queue_before_def)
qed

text \<open>
  The statement at a queue of six rows, two of which are not for the target, not yet due
  or exhausted: with limit 2 the two urgent rows are returned, the earlier one first.
\<close>

theorem dequeueMessages_spec_witness:
  "dequeueMessages example_queue_db 100 claude 2
     = [qrow 5 ''m5'' claude 2 0 5 20, qrow 2 ''m2'' claude 2 1 5 50]
   \<and> length (dequeueMessages example_queue_db 100 claude 2)
       = min 2 (length (filter (\<lambda>q. q_target q = claude \<and> q_next_attempt q \<le> 100
                              \<and> int (q_attempts q) < q_max_attempts q)
                  (message_queue example_queue_db)))
   \<and> sorted_wrt (\<lambda>a b. q_priority b < q_priority a
                     \<or> (q_priority a = q_priority b \<and> q_next_attempt a \<le> q_next_attempt b))
        (dequeueMessages example_queue_db 100 claude 2)"
  using dequeueMessages_spec [of example_queue_db 100 claude 2]
  by (simp add: dequeueMessages_def example_queue_db_def qrow_def ready_def order_rows_def
        queue_before_def)

text \<open>
  \<^bold>\<open>Claim C6, as amended.\<close> For a queue entry with attempt count \<open>n\<close>,
  \<^verbatim>\<open>scheduleRetry\<close> rewrites exactly that row: attempts becomes \<open>n + 1\<close> and
  next\_attempt becomes the time of the retry plus exactly \<open>min (30 * 2 ^ n) 3600\<close>
  seconds (timestamps count milliseconds), whatever next\_attempt was before; the
  messages are untouched. \<^verbatim>\<open>clearExhaustedMessages\<close> keeps exactly the rows with
  attempts below max\_attempts and returns the number of rows it deleted.
\<close>

theorem scheduleRetry_backoff_and_clearExhausted:
  assumes "item \<in> set (message_queue db)" and "distinct (map q_id (message_queue db))"
  shows "message_queue (scheduleRetry db now item)
           = map (\<lambda>q. if q = item
                      then item\<lparr>q_attempts := q_attempts item + 1,
                                q_next_attempt := now + 1000 * min (30 * 2 ^ q_attempts item) 3600\<rparr>
                      else q) (message_queue db)
         \<and> messages (scheduleRetry db now item) = messages db
         \<and> (\<forall>q. q \<in> set (message_queue (snd (clearExhaustedMessages db)))
                \<longleftrightarrow> q \<in> set (message_queue db) \<and> \<not> q_max_attempts q \<le> int (q_attempts q))
         \<and> fst (clearExhaustedMessages db)
             = length (message_queue db) - length (message_queue (snd (clearExhaustedMessages db)))"
proof -
  have a: "message_queue (scheduleRetry db now item)
           = map (\<lambda>q. if q = item
                      then item\<lparr>q_attempts := q_attempts item + 1,
                                q_next_attempt := now + 1000 * min (30 * 2 ^ q_attempts item) 3600\<rparr>
                      else q) (message_queue db)"
  proof -
    have key: "q_id q = q_id item \<longleftrightarrow> q = item" if "q \<in> set (message_queue db)" for q
      using assms that by (meson distinct_map inj_onD)
    have "message_queue (scheduleRetry db now item)
          = map (\<lambda>q. if q_id q = q_id item
                     then q\<lparr>q_attempts := q_attempts q + 1,
                            q_next_attempt := now + 1000 * min (30 * 2 ^ q_attempts item) 3600\<rparr>
                     else q) (message_queue db)"
      by (simp add: scheduleRetry_def incrementAttempts_def Let_def)
    also have "\<dots> = map (\<lambda>q. if q = item
                      then item\<lparr>q_attempts := q_attempts item + 1,
                                q_next_attempt := now + 1000 * min (30 * 2 ^ q_attempts item) 3600\<rparr>
                      else q) (message_queue db)"
      by (rule map_cong [OF refl]) (use key in auto)
    finally show ?thesis .
  qed
  have b: "messages (scheduleRetry db now item) = messages db"
    by (simp add: scheduleRetry_def incrementAttempts_def Let_def)
  have c: "\<forall>q. q \<in> set (message_queue (snd (clearExhaustedMessages db)))
                \<longleftrightarrow> q \<in> set (message_queue db) \<and> \<not> q_max_attempts q \<le> int (q_attempts q)"
    by (simp add: clearExhaustedMessages_def)
  have "length (filter (\<lambda>q. q_max_attempts q \<le> int (q_attempts q)) (message_queue db))
        + length (filter (\<lambda>q. \<not> q_max_attempts q \<le> int (q_attempts q)) (message_queue db))
        = length (message_queue db)"
    by (rule sum_length_filter_compl)
  then have d: "fst (clearExhaustedMessages db)
             = length (message_queue db) - length (message_queue (snd (clearExhaustedMessages db)))"
    by (simp add: clearExhaustedMessages_def)
  from a b c d show ?thesis by blast
qed

text \<open>
  The statement at the six-row queue: the second failure of row 2 at time 100 ms sets
  its next attempt 60 s later, and the sweep deletes the one exhausted row.
\<close>

theorem scheduleRetry_backoff_and_clearExhausted_witness:
  "qrow 2 ''m2'' claude 2 1 5 50 \<in> set (message_queue example_queue_db)
   \<and> distinct (map q_id (message_queue example_queue_db))
   \<and> message_queue (scheduleRetry example_queue_db 100 (qrow 2 ''m2'' claude 2 1 5 50))
       = [qrow 1 ''m1'' claude 0 0 5 10,
          qrow 2 ''m2'' claude 2 2 5 60100,
          qrow 3 ''m3'' codex 2 0 5 0,
          qrow 4 ''m4'' claude 1 5 5 0,
          qrow 5 ''m5'' claude 2 0 5 20,
          qrow 6 ''m6'' claude 1 0 5 200]
   \<and> clearExhaustedMessages example_queue_db
       = (1, example_queue_db\<lparr>message_queue :=
               [qrow 1 ''m1'' claude 0 0 5 10,
                qrow 2 ''m2'' claude 2 1 5 50,
                qrow 3 ''m3'' codex 2 0 5 0,
                qrow 5 ''m5'' claude 2 0 5 20,
                qrow 6 ''m6'' claude 1 0 5 200]\<rparr>)"
proof -
  have h1: "qrow 2 ''m2'' claude 2 1 5 50 \<in> set (message_queue example_queue_db)"
    by (simp add: example_queue_db_def)
  have h2: "distinct (map q_id (message_queue example_queue_db))"
    by (simp add: example_queue_db_def qrow_def)
  show ?thesis
    using h1 h2 scheduleRetry_backoff_and_clearExhausted [OF h1 h2, of 100]
    by (simp add: example_queue_db_def qrow_def clearExhaustedMessages_def)
qed

text \<open>
  Claim C6 as stated fails: next\_attempt does not advance by the delay. Row 2 of the
  six-row queue was due at 50 ms and has failed once; the queue processor dequeues it at
  100 ms and schedules the retry. The delay is 60 s, the new next\_attempt is 60100 ms,
  and the old next\_attempt plus the delay is 60050 ms.
\<close>

theorem scheduleRetry_counts_from_the_retry:
  "qrow 2 ''m2'' claude 2 1 5 50 \<in> set (dequeueMessages example_queue_db 100 claude 10)
   \<and> q_attempts (qrow 2 ''m2'' claude 2 1 5 50) = 1
   \<and> q_next_attempt (qrow 2 ''m2'' claude 2 1 5 50) = 50
   \<and> 1000 * min (30 * 2 ^ q_attempts (qrow 2 ''m2'' claude 2 1 5 50)) 3600 = (60000 :: nat)
   \<and> map (\<lambda>q. (q_id q, q_attempts q, q_next_attempt q))
        (message_queue (scheduleRetry example_queue_db 100 (qrow 2 ''m2'' claude 2 1 5 50)))
       = [(1, 0, 10), (2, 2, 60100), (3, 0, 0), (4, 5, 0), (5, 0, 20), (6, 0, 200)]
   \<and> (60100 :: nat) \<noteq> 50 + 60000"
  by (simp add: example_queue_db_def qrow_def dequeueMessages_def ready_def order_rows_def
      insert_row.simps queue_before_def scheduleRetry_def incrementAttempts_def Let_def)

text \<open>
  \<^bold>\<open>Claim C10.\<close> A row created by \<^verbatim>\<open>enqueueMessage\<close> has \<open>max_attempts = 3\<close> when the
  input omits the field and the given value otherwise; it has the value 5 exactly when
  the caller passes 5. The row is the one appended to the queue.
\<close>

theorem enqueueMessage_max_attempts:
  assumes "enqueueMessage db now input = Inr (row, db')"
  shows "q_max_attempts row = (case qi_max_attempts input of None \<Rightarrow> 3 | Some n \<Rightarrow> n)
         \<and> (q_max_attempts row = 5 \<longleftrightarrow> qi_max_attempts input = Some 5)
         \<and> message_queue db' = message_queue db @ [row]"
  using assms
  by (auto simp: enqueueMessage_def Let_def split: if_splits option.splits)

subsection \<open>The dispatcher: the wait returns, frames of the store functions\<close>

lemma waitForResponse_loop_returns:
  "0 < pollInterval \<Longrightarrow>
   waitForResponse_loop db mid timeoutMs elapsed pollInterval
     = Some (if elapsed < timeoutMs then getResponseToMessage db mid else None)"
proof (induction "timeoutMs - elapsed" arbitrary: elapsed pollInterval rule: less_induct)
  case less
  show ?case
  proof (cases "elapsed < timeoutMs")
    case False
    then show ?thesis by (subst waitForResponse_loop.simps) simp
  next
    case True
    show ?thesis
    proof (cases "getResponseToMessage db mid")
      case (Some r)
      with True show ?thesis by (subst waitForResponse_loop.simps) simp
    next
      case None
      have pos: "0 < min (pollInterval * 3 div 2) 1000" using less.prems by simp
      have dec: "timeoutMs - (elapsed + pollInterval) < timeoutMs - elapsed"
        using True less.prems by simp
      from less.hyps [OF dec pos] None True show ?thesis
        by (subst waitForResponse_loop.simps) simp
    qed
  qed
qed

lemma waitForResponse_returns:
  "waitForResponse db mid timeoutMs
     = Some (if 0 < timeoutMs then getResponseToMessage db mid else None)"
  by (simp add: waitForResponse_def waitForResponse_loop_returns)

lemma find_append_list:
  "find P (xs @ ys) = (case find P xs of None \<Rightarrow> find P ys | Some x \<Rightarrow> Some x)"
  by (induction xs) auto

lemma getMessage_append_old:
  "getMessage db mid = Some m \<Longrightarrow> messages db' = messages db @ new \<Longrightarrow> getMessage db' mid = Some m"
  by (simp add: getMessage_def find_append_list)

lemma getMessage_append_new:
  "getMessage db mid = None \<Longrightarrow> messages db' = messages db @ new
     \<Longrightarrow> getMessage db' mid = find (\<lambda>m. m_id m = mid) new"
  by (simp add: getMessage_def find_append_list)

lemma getMessage_None_ids: "getMessage db mid = None \<Longrightarrow> m \<in> set (messages db) \<Longrightarrow> m_id m \<noteq> mid"
  by (auto simp: getMessage_def find_None_iff)

lemma touch_conversation_ids:
  "map cv_id (map (\<lambda>c. if cv_id c = cid then c\<lparr>cv_updated_at := now\<rparr> else c) cs) = map cv_id cs"
  "map cv_status (map (\<lambda>c. if cv_id c = cid then c\<lparr>cv_updated_at := now\<rparr> else c) cs)
     = map cv_status cs"
  by (induction cs) auto

lemma createMessage_Inr:
  assumes "createMessage db now uuid input = Inr (row, db')"
  shows "m_id row = uuid" "m_status row = S_pending"
    "m_conversation_id row = mi_conversation_id input"
    "m_target row = mi_target input" "m_sender row = mi_sender input"
    "messages db' = messages db @ [row]"
    "message_queue db' = message_queue db"
    "clients db' = clients db"
    "map cv_id (conversations db') = map cv_id (conversations db)"
    "map cv_status (conversations db') = map cv_status (conversations db)"
    "getMessage db uuid = None"
    "getConversation db (mi_conversation_id input) \<noteq> None"
  using assms
  by (auto simp: createMessage_def Let_def touch_conversation_ids split: if_splits)

lemma createMessage_Inl: "createMessage db now uuid input = Inl e \<Longrightarrow> e = SqliteConstraint"
  by (auto simp: createMessage_def Let_def split: if_splits)

lemma enqueueMessage_Inr:
  assumes "enqueueMessage db now input = Inr (row, db')"
  shows "row = \<lparr>q_id = next_rowid (message_queue db), q_message_id = qi_message_id input,
                q_target = qi_target input,
                q_priority = (case qi_priority input of None \<Rightarrow> 0 | Some p \<Rightarrow> p),
                q_attempts = 0,
                q_max_attempts = (case qi_max_attempts input of None \<Rightarrow> 3 | Some n \<Rightarrow> n),
                q_next_attempt = now, q_created_at = now\<rparr>"
    "db' = db\<lparr>message_queue := message_queue db @ [row]\<rparr>"
  using assms by (auto simp: enqueueMessage_def Let_def split: if_splits)

lemma sendMessage_conversation_frame:
  assumes "sendMessage_conversation w db now opts = (out, db1)"
  shows "messages db1 = messages db" "message_queue db1 = message_queue db" "clients db1 = clients db"
  using assms
  by (auto simp: sendMessage_conversation_def createConversation_def Let_def
      split: option.splits if_splits sum.splits)

lemma updateMessageStatus_frame:
  "message_queue (updateMessageStatus db now mid st) = message_queue db"
  "clients (updateMessageStatus db now mid st) = clients db"
  "conversations (updateMessageStatus db now mid st) = conversations db"
  by (simp_all add: updateMessageStatus_def)

lemma updateMessageStatus_fresh:
  "getMessage db mid = None \<Longrightarrow> messages (updateMessageStatus db now mid st) = messages db"
  by (auto simp: updateMessageStatus_def getMessage_def find_None_iff intro: map_idI)

lemma updateMessageStatus_append:
  "getMessage db mid = None \<Longrightarrow> messages db' = messages db @ new
   \<Longrightarrow> \<exists>new'. messages (updateMessageStatus db' now mid st) = messages db @ new'
        \<and> map m_conversation_id new' = map m_conversation_id new \<and> map m_id new' = map m_id new"
  by (auto simp: updateMessageStatus_def getMessage_def find_None_iff o_def intro!: map_idI map_cong)

lemma sendMessage_route_enqueue:
  assumes "\<not> sendMessage_targetOnline d (o_target opts)" "o_target opts \<noteq> codex"
  shows "sendMessage_route d w db now opts conv message =
    (case enqueueMessage db now
            \<lparr>qi_message_id = m_id message, qi_target = o_target opts,
             qi_priority = Some (priorityMap (case o_priority opts of
                                                None \<Rightarrow> P_normal | Some p \<Rightarrow> p)),
             qi_max_attempts = Some 5\<rparr> of
       Inl e \<Rightarrow> (Inl e, db)
     | Inr (row, db') \<Rightarrow>
         (Inr \<lparr>r_message = message, r_conversation = conv, r_response = None,
               r_invoked = None, r_invokedViaMcp = None, r_invocationError = None,
               r_selectedAgent = None\<rparr>, db'))"
  using assms by (simp add: sendMessage_route_def Let_def)

lemma sendMessage_wait_returns:
  "\<exists>resp.
     (if o_waitForResponse opts = Some True \<and> r_response result = None
      then (case waitForResponse db3 mid t of
              None \<Rightarrow> None
            | Some None \<Rightarrow> Some (Inr result, db3)
            | Some (Some response) \<Rightarrow> Some (Inr (result\<lparr>r_response := Some response\<rparr>), db3))
      else Some (Inr result, db3))
     = Some (Inr (result\<lparr>r_response := resp\<rparr>), db3)"
proof (cases "o_waitForResponse opts = Some True \<and> r_response result = None")
  case False
  then show ?thesis by (intro exI [of _ "r_response result"]) auto
next
  case True
  show ?thesis
  proof (cases "if 0 < t then getResponseToMessage db3 mid else None")
    case None
    with True show ?thesis
      by (intro exI [of _ None]) (simp add: waitForResponse_returns)
  next
    case (Some r)
    with True show ?thesis
      by (intro exI [of _ "Some r"]) (simp add: waitForResponse_returns)
  qed
qed

lemma sendMessage_offline_claude_returns:
  assumes off: "\<not> sendMessage_targetOnline d claude" and tgt: "o_target opts = claude"
  shows "\<exists>out db'. sendMessage d w db now opts = Some (out, db') \<and>
          (case out of
             Inl e \<Rightarrow> message_queue db' = message_queue db
           | Inr result \<Rightarrow>
               message_queue db' = message_queue db @
                 [\<lparr>q_id = next_rowid (message_queue db),
                   q_message_id = m_id (r_message result), q_target = claude,
                   q_priority = (case o_priority opts of
                                   Some P_urgent \<Rightarrow> 2 | Some P_high \<Rightarrow> 1 | _ \<Rightarrow> 0),
                   q_attempts = 0, q_max_attempts = 5,
                   q_next_attempt = now, q_created_at = now\<rparr>]
               \<and> (\<exists>m. getMessage db' (m_id (r_message result)) = Some m \<and> m_status m = S_pending))"
proof -
  obtain c db1 where conv: "sendMessage_conversation w db now opts = (c, db1)"
    by (cases "sendMessage_conversation w db now opts")
  note f1 = sendMessage_conversation_frame [OF conv]
  show ?thesis
  proof (cases c)
    case (Inl e)
    with conv f1 show ?thesis by (simp add: sendMessage_def)
  next
    case (Inr conversation)
    let ?mi = "\<lparr>mi_conversation_id = cv_id conversation, mi_sender = o_sender opts,
                 mi_target = o_target opts, mi_content = o_content opts,
                 mi_message_type = o_messageType opts, mi_priority = o_priority opts,
                 mi_response_to_id = None, mi_metadata = o_metadata opts\<rparr>"
    show ?thesis
    proof (cases "createMessage db1 now (uuid_message w) ?mi")
      case (Inl e)
      with conv Inr f1 show ?thesis by (simp add: sendMessage_def)
    next
      case created: (Inr p)
      obtain message db2 where p: "p = (message, db2)" by (cases p)
      note cm = createMessage_Inr [OF created [unfolded p]]
      let ?qi = "\<lparr>qi_message_id = m_id message, qi_target = o_target opts,
                   qi_priority = Some (priorityMap (case o_priority opts of
                                                      None \<Rightarrow> P_normal | Some p \<Rightarrow> p)),
                   qi_max_attempts = Some 5\<rparr>"
      have route: "sendMessage_route d w db2 now opts conversation message =
          (case enqueueMessage db2 now ?qi of
             Inl e \<Rightarrow> (Inl e, db2)
           | Inr (row, db') \<Rightarrow>
               (Inr \<lparr>r_message = message, r_conversation = conversation, r_response = None,
                     r_invoked = None, r_invokedViaMcp = None, r_invocationError = None,
                     r_selectedAgent = None\<rparr>, db'))"
        using off tgt by (intro sendMessage_route_enqueue) simp_all
      show ?thesis
      proof (cases "enqueueMessage db2 now ?qi")
        case (Inl e)
        with conv Inr created p route cm(7) f1(2) show ?thesis
          by (simp add: sendMessage_def)
      next
        case enq: (Inr pr)
        obtain row db3 where pr: "pr = (row, db3)" by (cases pr)
        note en = enqueueMessage_Inr [OF enq [unfolded pr]]
        let ?result = "\<lparr>r_message = message, r_conversation = conversation, r_response = None,
                     r_invoked = None, r_invokedViaMcp = None, r_invocationError = None,
                     r_selectedAgent = None\<rparr>"
        obtain resp where w:
          "sendMessage d w db now opts = Some (Inr (?result\<lparr>r_response := resp\<rparr>), db3)"
          using sendMessage_wait_returns [of opts ?result db3 "m_id message"
              "case o_timeoutMs opts of None \<Rightarrow> 60000 | Some t \<Rightarrow> t"]
          using conv Inr created p route enq pr
          by (auto simp: sendMessage_def)
        have prio: "priorityMap (case o_priority opts of None \<Rightarrow> P_normal | Some p \<Rightarrow> p)
                    = (case o_priority opts of Some P_urgent \<Rightarrow> 2 | Some P_high \<Rightarrow> 1 | _ \<Rightarrow> 0)"
          by (simp add: priorityMap_def split: option.splits MessagePriority.splits)
        have q: "message_queue db3 = message_queue db @
                 [\<lparr>q_id = next_rowid (message_queue db),
                   q_message_id = m_id message, q_target = claude,
                   q_priority = (case o_priority opts of
                                   Some P_urgent \<Rightarrow> 2 | Some P_high \<Rightarrow> 1 | _ \<Rightarrow> 0),
                   q_attempts = 0, q_max_attempts = 5,
                   q_next_attempt = now, q_created_at = now\<rparr>]"
          using en cm(7) f1(2) tgt prio by simp
        have "messages db3 = messages db1 @ [message]" using en(2) cm(6) by simp
        with cm(11) cm(1) have "getMessage db3 (m_id message) = Some message"
          by (simp add: getMessage_append_new)
        with cm(2) have st: "\<exists>m. getMessage db3 (m_id message) = Some m \<and> m_status m = S_pending"
          by blast
        from w q st show ?thesis by simp
      qed
    qed
  qed
qed

lemma sendMessage_conversation_succeeds:
  assumes "getClient db (o_sender opts) \<noteq> None"
    and "case o_conversationId opts of
           None \<Rightarrow> getConversation db (uuid_conversation w) = None
         | Some cid \<Rightarrow>
             if cid = [] then getConversation db (uuid_conversation w) = None
             else getConversation db cid \<noteq> None"
  shows "\<exists>conv db1. sendMessage_conversation w db now opts = (Inr conv, db1)
           \<and> getConversation db1 (cv_id conv) \<noteq> None"
proof -
  have found: "cv_id c = cid" if "getConversation db cid = Some c" for cid c
    using that by (auto simp: getConversation_def find_Some_iff)
  have created: "\<exists>conv db1.
      (case createConversation db now (uuid_conversation w)
              \<lparr>ci_title = None, ci_project = None, ci_created_by = o_sender opts,
               ci_metadata = None\<rparr> of
         Inl e \<Rightarrow> (Inl e, db)
       | Inr (conversation, db') \<Rightarrow> (Inr conversation, db')) = (Inr conv, db1)
      \<and> getConversation db1 (cv_id conv) \<noteq> None"
    if "getConversation db (uuid_conversation w) = None"
    using that assms(1)
    by (simp add: createConversation_def Let_def getConversation_def find_append_list)
  show ?thesis
  proof (cases "o_conversationId opts")
    case None
    with assms(2) created show ?thesis
      by (simp add: sendMessage_conversation_def Let_def)
  next
    case (Some cid)
    show ?thesis
    proof (cases "cid = []")
      case True
      with Some assms(2) created show ?thesis
        by (simp add: sendMessage_conversation_def Let_def)
    next
      case False
      with Some assms(2) obtain c where c: "getConversation db cid = Some c"
        by auto
      with found have "cv_id c = cid" by simp
      with c Some False show ?thesis
        by (simp add: sendMessage_conversation_def Let_def)
    qed
  qed
qed

lemma sendMessage_offline_claude_succeeds:
  assumes off: "\<not> sendMessage_targetOnline d claude" and tgt: "o_target opts = claude"
    and sender: "getClient db (o_sender opts) \<noteq> None"
    and target: "getClient db claude \<noteq> None"
    and cid: "case o_conversationId opts of
                None \<Rightarrow> getConversation db (uuid_conversation w) = None
              | Some cid \<Rightarrow>
                  if cid = [] then getConversation db (uuid_conversation w) = None
                  else getConversation db cid \<noteq> None"
    and fresh: "getMessage db (uuid_message w) = None"
    and fk: "\<forall>q\<in>set (message_queue db). getMessage db (q_message_id q) \<noteq> None"
  shows "\<exists>result db'. sendMessage d w db now opts = Some (Inr result, db')
           \<and> m_id (r_message result) = uuid_message w"
proof -
  from sendMessage_conversation_succeeds [OF sender cid] obtain conv db1 where
    conv: "sendMessage_conversation w db now opts = (Inr conv, db1)" and
    stored: "getConversation db1 (cv_id conv) \<noteq> None"
    by blast
  note f1 = sendMessage_conversation_frame [OF conv]
  let ?mi = "\<lparr>mi_conversation_id = cv_id conv, mi_sender = o_sender opts,
               mi_target = o_target opts, mi_content = o_content opts,
               mi_message_type = o_messageType opts, mi_priority = o_priority opts,
               mi_response_to_id = None, mi_metadata = o_metadata opts\<rparr>"
  have g1: "getMessage db1 (uuid_message w) = None"
    using fresh f1(1) by (simp add: getMessage_def)
  have c1: "getClient db1 (o_sender opts) \<noteq> None" "getClient db1 claude \<noteq> None"
    using sender target f1(3) by (simp_all add: getClient_def)
  from g1 c1 stored tgt obtain message db2 where
    created: "createMessage db1 now (uuid_message w) ?mi = Inr (message, db2)"
    by (simp add: createMessage_def Let_def)
  note cm = createMessage_Inr [OF created]
  let ?qi = "\<lparr>qi_message_id = m_id message, qi_target = o_target opts,
               qi_priority = Some (priorityMap (case o_priority opts of
                                                  None \<Rightarrow> P_normal | Some p \<Rightarrow> p)),
               qi_max_attempts = Some 5\<rparr>"
  have g2: "getMessage db2 (m_id message) \<noteq> None"
    using cm(6) cm(1) g1 by (simp add: getMessage_append_new)
  have c2: "getClient db2 claude \<noteq> None"
    using c1(2) cm(8) by (simp add: getClient_def)
  have q2: "m_id message \<notin> set (map q_message_id (message_queue db2))"
    using fk fresh cm(1) cm(7) f1(2) by auto
  from g2 c2 q2 tgt obtain row db3 where
    enq: "enqueueMessage db2 now ?qi = Inr (row, db3)"
    by (simp add: enqueueMessage_def Let_def)
  let ?result = "\<lparr>r_message = message, r_conversation = conv, r_response = None,
               r_invoked = None, r_invokedViaMcp = None, r_invocationError = None,
               r_selectedAgent = None\<rparr>"
  have route: "sendMessage_route d w db2 now opts conv message = (Inr ?result, db3)"
    using off tgt enq by (simp add: sendMessage_route_enqueue)
  obtain resp where
    "sendMessage d w db now opts = Some (Inr (?result\<lparr>r_response := resp\<rparr>), db3)"
    using sendMessage_wait_returns [of opts ?result db3 "m_id message"
        "case o_timeoutMs opts of None \<Rightarrow> 60000 | Some t \<Rightarrow> t"]
    using conv created route
    by (auto simp: sendMessage_def)
  with cm(1) show ?thesis by simp
qed

text \<open>
  \<^bold>\<open>Claim C5.\<close> When \<^verbatim>\<open>sendMessage\<close> is called with the registry reporting the target
  offline and the target is claude, the call returns, and when it succeeds the queue is
  the queue before the call plus exactly one row for the new message, with priority
  2, 1 or 0 for urgent, high or normal, \<open>attempts = 0\<close> and \<open>max_attempts = 5\<close>, and the
  message stored has status pending. When it fails the queue is as before. The call
  succeeds on every store in which the sender and claude are registered (the migration
  inserts both), the conversation named by \<^verbatim>\<open>conversationId\<close> exists (or, when none is
  named, the new conversation id is unused), the new message id is unused and every
  queue row names a stored message (the foreign key of the table); the message of the
  result then carries the new message id.
\<close>

theorem sendMessage_offline_claude_enqueues:
  assumes off: "\<not> sendMessage_targetOnline d claude" and tgt: "o_target opts = claude"
  shows "(\<exists>out db'. sendMessage d w db now opts = Some (out, db') \<and>
          (case out of
             Inl e \<Rightarrow> message_queue db' = message_queue db
           | Inr result \<Rightarrow>
               message_queue db' = message_queue db @
                 [\<lparr>q_id = next_rowid (message_queue db),
                   q_message_id = m_id (r_message result), q_target = claude,
                   q_priority = (case o_priority opts of
                                   Some P_urgent \<Rightarrow> 2 | Some P_high \<Rightarrow> 1 | _ \<Rightarrow> 0),
                   q_attempts = 0, q_max_attempts = 5,
                   q_next_attempt = now, q_created_at = now\<rparr>]
               \<and> (\<exists>m. getMessage db' (m_id (r_message result)) = Some m \<and> m_status m = S_pending)))
       \<and> (getClient db (o_sender opts) \<noteq> None \<and> getClient db claude \<noteq> None
            \<and> (case o_conversationId opts of
                  None \<Rightarrow> getConversation db (uuid_conversation w) = None
                | Some cid \<Rightarrow>
                    if cid = [] then getConversation db (uuid_conversation w) = None
                    else getConversation db cid \<noteq> None)
            \<and> getMessage db (uuid_message w) = None
            \<and> (\<forall>q\<in>set (message_queue db). getMessage db (q_message_id q) \<noteq> None)
          \<longrightarrow> (\<exists>result db'. sendMessage d w db now opts = Some (Inr result, db')
                 \<and> m_id (r_message result) = uuid_message w
                 \<and> message_queue db' = message_queue db @
                     [\<lparr>q_id = next_rowid (message_queue db),
                       q_message_id = uuid_message w, q_target = claude,
                       q_priority = (case o_priority opts of
                                       Some P_urgent \<Rightarrow> 2 | Some P_high \<Rightarrow> 1 | _ \<Rightarrow> 0),
                       q_attempts = 0, q_max_attempts = 5,
                       q_next_attempt = now, q_created_at = now\<rparr>]
                 \<and> (\<exists>m. getMessage db' (uuid_message w) = Some m \<and> m_status m = S_pending)))"
  (is "?returns \<and> (?pre \<longrightarrow> ?succeeds)")
proof (intro conjI impI)
  show r: ?returns by (rule sendMessage_offline_claude_returns [OF off tgt])
  assume pre: ?pre
  then obtain result db' where
    ok: "sendMessage d w db now opts = Some (Inr result, db')" and
    mid: "m_id (r_message result) = uuid_message w"
    using sendMessage_offline_claude_succeeds [OF off tgt, of db w now] by blast
  from r ok mid show ?succeeds by auto
qed


lemmas store_defs =
  getClient_def getConversation_def getMessage_def createConversation_def createMessage_def
  enqueueMessage_def next_rowid_def updateMessageStatus_def getResponseToMessage_def
  isClientOnline_def

lemmas dispatcher_defs =
  sendMessage_def sendMessage_conversation_def sendMessage_route_def sendMessage_respond_def
  sendMessage_targetOnline_def isOnline_def priorityMap_def waitForResponse_returns Let_def

text \<open>
  The statement at a store whose queue is not empty: after the scenario "offline claude
  is enqueued" (conversation c1, message m1, queue row 1), codex sends an urgent
  message to claude into conversation c1 at time 9; the new message id is m2. The queue
  is row 1 followed by the new row 2, and both messages are pending.
\<close>

theorem sendMessage_offline_claude_enqueues_witness:
  "\<not> sendMessage_targetOnline codex_online_dispatcher claude
   \<and> o_target (ping_opts\<lparr>o_conversationId := Some ''c1'', o_priority := Some P_urgent\<rparr>) = claude
   \<and> getClient ping_db codex \<noteq> None \<and> getClient ping_db claude \<noteq> None
   \<and> getConversation ping_db ''c1'' \<noteq> None
   \<and> getMessage ping_db ''m2'' = None
   \<and> map (\<lambda>q. map_option m_id (getMessage ping_db (q_message_id q))) (message_queue ping_db)
       = [Some ''m1'']
   \<and> (case sendMessage codex_online_dispatcher (example_world\<lparr>uuid_message := ''m2''\<rparr>) ping_db 9
              (ping_opts\<lparr>o_conversationId := Some ''c1'', o_priority := Some P_urgent\<rparr>) of
         Some (Inr result, db') \<Rightarrow>
           m_id (r_message result) = ''m2''
           \<and> message_queue db'
             = [\<lparr>q_id = 1, q_message_id = ''m1'', q_target = claude, q_priority = 1,
                 q_attempts = 0, q_max_attempts = 5, q_next_attempt = 5, q_created_at = 5\<rparr>,
                \<lparr>q_id = 2, q_message_id = ''m2'', q_target = claude, q_priority = 2,
                 q_attempts = 0, q_max_attempts = 5, q_next_attempt = 9, q_created_at = 9\<rparr>]
           \<and> map (\<lambda>m. (m_id m, m_status m)) (messages db')
               = [(''m1'', S_pending), (''m2'', S_pending)]
       | _ \<Rightarrow> False)"
proof -
  let ?opts = "ping_opts\<lparr>o_conversationId := Some ''c1'', o_priority := Some P_urgent\<rparr>"
  let ?w = "example_world\<lparr>uuid_message := ''m2''\<rparr>"
  have h1: "\<not> sendMessage_targetOnline codex_online_dispatcher claude"
    by (simp add: sendMessage_targetOnline_def codex_online_dispatcher_def isOnline_def)
  have h2: "o_target ?opts = claude"
    by (simp add: ping_opts_def)
  have h3: "getClient ping_db codex \<noteq> None" "getClient ping_db claude \<noteq> None"
    "getConversation ping_db ''c1'' \<noteq> None" "getMessage ping_db ''m2'' = None"
    "\<forall>q\<in>set (message_queue ping_db). getMessage ping_db (q_message_id q) \<noteq> None"
    by (simp_all add: store_defs ping_db_def one_message_db_def new_database_def)
  have h4: "map (\<lambda>q. map_option m_id (getMessage ping_db (q_message_id q))) (message_queue ping_db)
            = [Some ''m1'']"
    by (simp add: store_defs ping_db_def one_message_db_def new_database_def)
  have pre: "getClient ping_db (o_sender ?opts) \<noteq> None \<and> getClient ping_db claude \<noteq> None
     \<and> (case o_conversationId ?opts of
           None \<Rightarrow> getConversation ping_db (uuid_conversation ?w) = None
         | Some cid \<Rightarrow>
             if cid = [] then getConversation ping_db (uuid_conversation ?w) = None
             else getConversation ping_db cid \<noteq> None)
     \<and> getMessage ping_db (uuid_message ?w) = None
     \<and> (\<forall>q\<in>set (message_queue ping_db). getMessage ping_db (q_message_id q) \<noteq> None)"
    using h3 by (simp add: ping_opts_def)
  from sendMessage_offline_claude_enqueues [OF h1 h2, of ?w ping_db 9, THEN conjunct2] pre
  obtain result db' where
    ok: "sendMessage codex_online_dispatcher ?w ping_db 9 ?opts = Some (Inr result, db')" and
    mid: "m_id (r_message result) = uuid_message ?w" and
    q: "message_queue db' = message_queue ping_db @
          [\<lparr>q_id = next_rowid (message_queue ping_db),
            q_message_id = uuid_message ?w, q_target = claude,
            q_priority = (case o_priority ?opts of
                            Some P_urgent \<Rightarrow> 2 | Some P_high \<Rightarrow> 1 | _ \<Rightarrow> 0),
            q_attempts = 0, q_max_attempts = 5, q_next_attempt = 9, q_created_at = 9\<rparr>]"
    by blast
  have ms: "map (\<lambda>m. (m_id m, m_status m)) (messages db')
            = [(''m1'', S_pending), (''m2'', S_pending)]"
    using ok
    by (simp add: dispatcher_defs store_defs codex_online_dispatcher_def example_world_def
        ping_db_def one_message_db_def new_database_def ping_opts_def)
      auto
  have q': "message_queue db'
             = [\<lparr>q_id = 1, q_message_id = ''m1'', q_target = claude, q_priority = 1,
                 q_attempts = 0, q_max_attempts = 5, q_next_attempt = 5, q_created_at = 5\<rparr>,
                \<lparr>q_id = 2, q_message_id = ''m2'', q_target = claude, q_priority = 2,
                 q_attempts = 0, q_max_attempts = 5, q_next_attempt = 9, q_created_at = 9\<rparr>]"
    using q by (simp add: ping_db_def one_message_db_def next_rowid_def ping_opts_def)
  from h1 h2 h3(1-4) h4 ok mid ms q' show ?thesis by simp
qed

text \<open>
  The statement at a store holding one pending message: enqueueing it without
  \<^verbatim>\<open>max_attempts\<close> succeeds and the row has \<open>max_attempts = 3\<close>.
\<close>

theorem enqueueMessage_max_attempts_witness:
  "enqueueMessage one_message_db 7
     \<lparr>qi_message_id = ''m1'', qi_target = claude, qi_priority = None, qi_max_attempts = None\<rparr>
   = Inr (\<lparr>q_id = 1, q_message_id = ''m1'', q_target = claude, q_priority = 0, q_attempts = 0,
           q_max_attempts = 3, q_next_attempt = 7, q_created_at = 7\<rparr>,
          one_message_db\<lparr>message_queue :=
            [\<lparr>q_id = 1, q_message_id = ''m1'', q_target = claude, q_priority = 0, q_attempts = 0,
              q_max_attempts = 3, q_next_attempt = 7, q_created_at = 7\<rparr>]\<rparr>)
   \<and> q_max_attempts \<lparr>q_id = 1, q_message_id = ''m1'', q_target = claude, q_priority = 0,
        q_attempts = 0, q_max_attempts = 3, q_next_attempt = 7, q_created_at = 7\<rparr> = 3"
proof -
  have ev: "enqueueMessage one_message_db 7
     \<lparr>qi_message_id = ''m1'', qi_target = claude, qi_priority = None, qi_max_attempts = None\<rparr>
   = Inr (\<lparr>q_id = 1, q_message_id = ''m1'', q_target = claude, q_priority = 0, q_attempts = 0,
           q_max_attempts = 3, q_next_attempt = 7, q_created_at = 7\<rparr>,
          one_message_db\<lparr>message_queue :=
            [\<lparr>q_id = 1, q_message_id = ''m1'', q_target = claude, q_priority = 0, q_attempts = 0,
              q_max_attempts = 3, q_next_attempt = 7, q_created_at = 7\<rparr>]\<rparr>)"
    by (simp add: store_defs Let_def one_message_db_def new_database_def)
  from enqueueMessage_max_attempts [OF ev] ev show ?thesis by simp
qed

subsection \<open>The dispatcher: what a send inserts\<close>

lemma conv_ids_same:
  assumes "map m_conversation_id new' = map m_conversation_id new"
    and "new \<noteq> []" and "\<forall>m\<in>set new. m_conversation_id m = cid"
  shows "new' \<noteq> [] \<and> (\<forall>m\<in>set new'. m_conversation_id m = cid)"
proof -
  have "m_conversation_id ` set new' = m_conversation_id ` set new"
    using assms(1) by (metis set_map)
  moreover have "length new' = length new" using assms(1) by (metis length_map)
  ultimately show ?thesis using assms(2,3) by auto
qed

lemma updateMessageStatus_tail:
  assumes "\<forall>m\<in>set old. m_id m \<noteq> mid" "messages db = old @ new"
  shows "\<exists>new'. messages (updateMessageStatus db now mid st) = old @ new'
           \<and> map m_conversation_id new' = map m_conversation_id new"
proof -
  let ?f = "\<lambda>m. if m_id m = mid
                then (if st = S_delivered then m\<lparr>m_status := st, m_delivered_at := Some now\<rparr>
                      else if st = S_read then m\<lparr>m_status := st, m_read_at := Some now\<rparr>
                      else m\<lparr>m_status := st\<rparr>)
                else m"
  have "map ?f old = old" using assms(1) by (intro map_idI) auto
  moreover have "map m_conversation_id (map ?f new) = map m_conversation_id new"
    by (induction new) auto
  ultimately show ?thesis
    using assms(2) by (intro exI [of _ "map ?f new"]) (simp add: updateMessageStatus_def)
qed

lemma sendMessage_respond_frame:
  assumes r: "sendMessage_respond w db now opts conv message content result = (out, db')"
    and old: "\<forall>m\<in>set old. m_id m \<noteq> m_id message"
    and ms: "messages db = old @ new"
    and cn: "new \<noteq> []" "\<forall>m\<in>set new. m_conversation_id m = cv_id conv"
  shows "\<exists>new'. messages db' = old @ new' \<and> new' \<noteq> []
           \<and> (\<forall>m\<in>set new'. m_conversation_id m = cv_id conv)"
    and "map cv_id (conversations db') = map cv_id (conversations db)"
    and "message_queue db' = message_queue db"
    and "\<And>res. out = Inr res \<Longrightarrow> r_message res = r_message result
           \<and> r_conversation res = r_conversation result
           \<and> r_selectedAgent res = r_selectedAgent result"
proof -
  let ?mi = "\<lparr>mi_conversation_id = cv_id conv, mi_sender = o_target opts,
              mi_target = o_sender opts, mi_content = content,
              mi_message_type = getResponseType (o_messageType opts),
              mi_priority = None, mi_response_to_id = Some (m_id message),
              mi_metadata = None\<rparr>"
  show "\<exists>new'. messages db' = old @ new' \<and> new' \<noteq> []
           \<and> (\<forall>m\<in>set new'. m_conversation_id m = cv_id conv)"
  proof (cases "createMessage db now (uuid_response w) ?mi")
    case (Inl e)
    with r ms cn show ?thesis by (auto simp: sendMessage_respond_def)
  next
    case (Inr p)
    obtain resp db1 where p: "p = (resp, db1)" by (cases p)
    note cm = createMessage_Inr [OF Inr [unfolded p]]
    have db': "db' = updateMessageStatus db1 now (m_id message) S_responded"
      using r Inr p by (simp add: sendMessage_respond_def)
    have m1: "messages db1 = old @ (new @ [resp])" using cm(6) ms by simp
    have c1: "new @ [resp] \<noteq> [] \<and> (\<forall>m\<in>set (new @ [resp]). m_conversation_id m = cv_id conv)"
      using cn cm(3) by simp
    from updateMessageStatus_tail [OF old m1, of now S_responded]
    obtain new' where n: "messages db' = old @ new'"
      "map m_conversation_id new' = map m_conversation_id (new @ [resp])"
      unfolding db' by blast
    from conv_ids_same [OF n(2)] c1 n(1) show ?thesis by blast
  qed
  show "map cv_id (conversations db') = map cv_id (conversations db)"
    using r
    by (auto simp: sendMessage_respond_def updateMessageStatus_frame
        split: sum.splits dest: createMessage_Inr(9))
  show "message_queue db' = message_queue db"
    using r
    by (auto simp: sendMessage_respond_def updateMessageStatus_frame
        split: sum.splits dest: createMessage_Inr(7))
  show "\<And>res. out = Inr res \<Longrightarrow> r_message res = r_message result
           \<and> r_conversation res = r_conversation result
           \<and> r_selectedAgent res = r_selectedAgent result"
    using r by (auto simp: sendMessage_respond_def split: sum.splits)
qed

lemma route_post_respond:
  assumes old: "\<forall>m\<in>set old. m_id m \<noteq> m_id message"
    and ms: "messages db = old @ [message]"
    and mc: "m_conversation_id message = cv_id conv"
    and res: "r_message result = message" "r_conversation result = conv"
  shows "route_post old conv message db
           (sendMessage_respond w db now opts conv message content result)"
proof -
  obtain out db' where r: "sendMessage_respond w db now opts conv message content result = (out, db')"
    by (cases "sendMessage_respond w db now opts conv message content result")
  have cn: "[message] \<noteq> []" "\<forall>m\<in>set [message]. m_conversation_id m = cv_id conv"
    using mc by simp_all
  note f = sendMessage_respond_frame [OF r old ms cn]
  show ?thesis
    unfolding r route_post_def using f(1,2) f(4) res
    by (cases out) auto
qed

lemma route_post_error_field:
  "route_post old conv message db (Inr res, db') \<Longrightarrow>
   route_post old conv message db (Inr (res\<lparr>r_invocationError := x\<rparr>), db')"
  by (simp add: route_post_def)

lemma sendMessage_route_post:
  assumes old: "\<forall>m\<in>set old. m_id m \<noteq> m_id message"
    and ms: "messages db2 = old @ [message]"
    and mc: "m_conversation_id message = cv_id conv"
  shows "route_post old conv message db2 (sendMessage_route d w db2 now opts conv message)"
proof -
  let ?result = "\<lparr>r_message = message, r_conversation = conv, r_response = None,
                    r_invoked = None, r_invokedViaMcp = None, r_invocationError = None,
                    r_selectedAgent = None\<rparr>"
  have same: "route_post old conv message db2 (Inr res, db2)"
    if "r_message res = message" "r_conversation res = conv" for res
    using that ms mc by (simp add: route_post_def)
  show ?thesis
  proof (cases "sendMessage_targetOnline d (o_target opts)")
    case True
    from updateMessageStatus_tail [OF old ms, of now S_delivered]
    obtain new' where n: "messages (updateMessageStatus db2 now (m_id message) S_delivered) = old @ new'"
      "map m_conversation_id new' = map m_conversation_id [message]"
      by blast
    from conv_ids_same [OF n(2)] mc
    have "new' \<noteq> [] \<and> (\<forall>m\<in>set new'. m_conversation_id m = cv_id conv)" by simp
    with True n(1) show ?thesis
      by (auto simp: sendMessage_route_def route_post_def Let_def updateMessageStatus_frame)
  next
    case off: False
    show ?thesis
    proof (cases "o_target opts = codex")
      case False
      with off ms mc show ?thesis
        by (auto simp: sendMessage_route_def route_post_def Let_def
            split: sum.splits dest!: enqueueMessage_Inr(2))
    next
      case True
      let ?ctx = "buildConversationContext db2 (cv_id conv)"
      let ?persona = "sendMessage_persona w opts"
      let ?r1 = "?result\<lparr>r_selectedAgent := Some (p_name ?persona)\<rparr>"
      show ?thesis
      proof (cases "tryCodexMcpServer d w (o_content opts) ?ctx (m_id message) ?persona")
        case (Some mcpResult)
        have "sendMessage_route d w db2 now opts conv message
              = sendMessage_respond w db2 now opts conv message mcpResult
                  (?r1\<lparr>r_invoked := Some True, r_invokedViaMcp := Some True\<rparr>)"
          using off True Some by (simp add: sendMessage_route_def Let_def)
        then show ?thesis
          using route_post_respond [OF old ms mc] by simp
      next
        case None
        let ?inv = "invokeCodexExec w message ?ctx
                      (case o_timeoutMs opts of None \<Rightarrow> 300000 | Some t \<Rightarrow> t)
                      (case o_useOutputSchema opts of None \<Rightarrow> True | Some b \<Rightarrow> b)"
        let ?r2 = "?r1\<lparr>r_invoked := Some True\<rparr>"
        show ?thesis
        proof (cases "iv_response ?inv")
          case inone: None
          with off True None same [of ?r2] same [of "?r2\<lparr>r_invocationError := x\<rparr>" for x]
          show ?thesis
            by (simp add: sendMessage_route_def Let_def)
        next
          case (Some r)
          show ?thesis
          proof (cases "r = []")
            case rempty: True
            with Some off True None same [of ?r2] same [of "?r2\<lparr>r_invocationError := x\<rparr>" for x]
            show ?thesis
              by (simp add: sendMessage_route_def Let_def)
          next
            case False
            have "route_post old conv message db2
                    (sendMessage_respond w db2 now opts conv message r ?r2)"
              using route_post_respond [OF old ms mc] by simp
            moreover have "sendMessage_route d w db2 now opts conv message
                  = (case sendMessage_respond w db2 now opts conv message r ?r2 of
                       (Inl e, db') \<Rightarrow> (Inl e, db')
                     | (Inr result3, db') \<Rightarrow> (Inr result3, db'))"
              using off True None Some False
              by (simp add: sendMessage_route_def Let_def split: prod.splits sum.splits)
            ultimately show ?thesis
              by (auto split: prod.splits sum.splits)
          qed
        qed
      qed
    qed
  qed
qed

lemma getConversation_Some_id: "getConversation db cid = Some c \<Longrightarrow> cv_id c = cid \<and> c \<in> set (conversations db)"
  by (auto simp: getConversation_def find_Some_iff)

lemma sendMessage_conversation_Inr:
  assumes "sendMessage_conversation w db now opts = (Inr conv, db1)"
  shows "(case o_conversationId opts of
            None \<Rightarrow> getConversation db (uuid_conversation w) = None
                     \<and> cv_id conv = uuid_conversation w \<and> cv_status conv = C_active
          | Some cid \<Rightarrow>
              if cid = []
              then getConversation db (uuid_conversation w) = None
                   \<and> cv_id conv = uuid_conversation w \<and> cv_status conv = C_active
              else getConversation db cid = Some conv)"
    and "cv_id conv \<in> set (map cv_id (conversations db1))"
    and "messages db1 = messages db"
  using assms
  by (auto simp: sendMessage_conversation_def createConversation_def Let_def
      split: option.splits if_splits sum.splits dest: getConversation_Some_id)

lemma sendMessage_InrE:
  assumes "sendMessage d w db now opts = Some (Inr result, db')"
  obtains conv db1 message db2 result0 resp where
    "sendMessage_conversation w db now opts = (Inr conv, db1)"
    "createMessage db1 now (uuid_message w)
       \<lparr>mi_conversation_id = cv_id conv, mi_sender = o_sender opts,
        mi_target = o_target opts, mi_content = o_content opts,
        mi_message_type = o_messageType opts, mi_priority = o_priority opts,
        mi_response_to_id = None, mi_metadata = o_metadata opts\<rparr> = Inr (message, db2)"
    "sendMessage_route d w db2 now opts conv message = (Inr result0, db')"
    "result = result0\<lparr>r_response := resp\<rparr>"
proof -
  obtain c db1 where conv: "sendMessage_conversation w db now opts = (c, db1)"
    by (cases "sendMessage_conversation w db now opts")
  show thesis
  proof (cases c)
    case (Inl e)
    with conv assms show ?thesis by (simp add: sendMessage_def)
  next
    case (Inr conversation)
    let ?mi = "\<lparr>mi_conversation_id = cv_id conversation, mi_sender = o_sender opts,
                 mi_target = o_target opts, mi_content = o_content opts,
                 mi_message_type = o_messageType opts, mi_priority = o_priority opts,
                 mi_response_to_id = None, mi_metadata = o_metadata opts\<rparr>"
    show ?thesis
    proof (cases "createMessage db1 now (uuid_message w) ?mi")
      case (Inl e)
      with conv Inr assms show ?thesis by (simp add: sendMessage_def)
    next
      case created: (Inr p)
      obtain message db2 where p: "p = (message, db2)" by (cases p)
      obtain out db3 where route: "sendMessage_route d w db2 now opts conversation message = (out, db3)"
        by (cases "sendMessage_route d w db2 now opts conversation message")
      show ?thesis
      proof (cases out)
        case (Inl e)
        with conv Inr created p route assms show ?thesis by (simp add: sendMessage_def)
      next
        case res: (Inr result0)
        obtain resp where
          "sendMessage d w db now opts = Some (Inr (result0\<lparr>r_response := resp\<rparr>), db3)"
          using sendMessage_wait_returns [of opts result0 db3 "m_id message"
              "case o_timeoutMs opts of None \<Rightarrow> 60000 | Some t \<Rightarrow> t"]
          using conv Inr created p route res
          by (auto simp: sendMessage_def)
        with assms have "result = result0\<lparr>r_response := resp\<rparr>" "db' = db3" by simp_all
        with that [of conversation db1 message db2 result0 resp] conv Inr created p route res
        show ?thesis by simp
      qed
    qed
  qed
qed

text \<open>
  \<^bold>\<open>Claim C4, as amended.\<close> For every successful \<^verbatim>\<open>sendMessage\<close>, the conversation of
  the result is the stored conversation named by \<^verbatim>\<open>conversationId\<close>, whatever its
  status, or a newly created active conversation when no id (or an empty one) is given;
  every message the call inserts (the message and, in the offline-codex branch, its
  response) carries that conversation's id, and the conversation is in the store after
  the call. A non-empty \<^verbatim>\<open>conversationId\<close> that names no stored conversation fails
  with "Conversation not found" and leaves the store as it was. No status is read.
\<close>

theorem sendMessage_conversation_found_not_active:
  "(\<forall>result db'. sendMessage d w db now opts = Some (Inr result, db') \<longrightarrow>
      (case o_conversationId opts of
         None \<Rightarrow> getConversation db (uuid_conversation w) = None
                  \<and> cv_id (r_conversation result) = uuid_conversation w
                  \<and> cv_status (r_conversation result) = C_active
       | Some cid \<Rightarrow>
           if cid = []
           then getConversation db (uuid_conversation w) = None
                \<and> cv_id (r_conversation result) = uuid_conversation w
                \<and> cv_status (r_conversation result) = C_active
           else getConversation db cid = Some (r_conversation result))
      \<and> (\<exists>new. messages db' = messages db @ new \<and> new \<noteq> []
             \<and> (\<forall>m\<in>set new. m_conversation_id m = cv_id (r_conversation result)))
      \<and> cv_id (r_conversation result) \<in> set (map cv_id (conversations db')))
   \<and> (\<forall>cid. o_conversationId opts = Some cid \<and> cid \<noteq> [] \<and> getConversation db cid = None \<longrightarrow>
        sendMessage d w db now opts = Some (Inl (ConversationNotFound cid), db))"
proof (intro conjI allI impI)
  fix cid
  assume "o_conversationId opts = Some cid \<and> cid \<noteq> [] \<and> getConversation db cid = None"
  then show "sendMessage d w db now opts = Some (Inl (ConversationNotFound cid), db)"
    by (simp add: sendMessage_def sendMessage_conversation_def)
next
  fix result db'
  assume ok: "sendMessage d w db now opts = Some (Inr result, db')"
  from ok obtain conv db1 message db2 result0 resp where
    c: "sendMessage_conversation w db now opts = (Inr conv, db1)" and
    m: "createMessage db1 now (uuid_message w)
       \<lparr>mi_conversation_id = cv_id conv, mi_sender = o_sender opts,
        mi_target = o_target opts, mi_content = o_content opts,
        mi_message_type = o_messageType opts, mi_priority = o_priority opts,
        mi_response_to_id = None, mi_metadata = o_metadata opts\<rparr> = Inr (message, db2)" and
    r: "sendMessage_route d w db2 now opts conv message = (Inr result0, db')" and
    res: "result = result0\<lparr>r_response := resp\<rparr>"
    by (rule sendMessage_InrE)
  note cf = sendMessage_conversation_Inr [OF c]
  note cm = createMessage_Inr [OF m]
  have old: "\<forall>x\<in>set (messages db). m_id x \<noteq> m_id message"
    using cm(11) cm(1) cf(3) getMessage_None_ids by metis
  have ms: "messages db2 = messages db @ [message]" using cm(6) cf(3) by simp
  have mc: "m_conversation_id message = cv_id conv" using cm(3) by simp
  from sendMessage_route_post [OF old ms mc, of d w now opts]
  have post: "route_post (messages db) conv message db2 (Inr result0, db')"
    unfolding r .
  then have rc: "r_conversation result = conv" using res by (simp add: route_post_def)
  show "case o_conversationId opts of
         None \<Rightarrow> getConversation db (uuid_conversation w) = None
                  \<and> cv_id (r_conversation result) = uuid_conversation w
                  \<and> cv_status (r_conversation result) = C_active
       | Some cid \<Rightarrow>
           if cid = []
           then getConversation db (uuid_conversation w) = None
                \<and> cv_id (r_conversation result) = uuid_conversation w
                \<and> cv_status (r_conversation result) = C_active
           else getConversation db cid = Some (r_conversation result)"
    using cf(1) unfolding rc .
  show "\<exists>new. messages db' = messages db @ new \<and> new \<noteq> []
             \<and> (\<forall>m\<in>set new. m_conversation_id m = cv_id (r_conversation result))"
    using post unfolding rc by (simp add: route_post_def)
  have "map cv_id (conversations db') = map cv_id (conversations db1)"
    using post cm(9) by (simp add: route_post_def)
  then show "cv_id (r_conversation result) \<in> set (map cv_id (conversations db'))"
    using cf(2) unfolding rc by simp
qed

lemma ping_eval:
  "sendMessage codex_online_dispatcher example_world (new_database 0) 5 ping_opts
     = Some (Inr ping_result, ping_db)"
  by (simp add: dispatcher_defs store_defs codex_online_dispatcher_def example_world_def
      new_database_def ping_opts_def ping_result_def ping_db_def one_message_db_def)

text \<open>
  The amended statement at two calls: a send without conversation id, which creates an
  active conversation, and a send that names the unknown conversation c9.
\<close>

theorem sendMessage_conversation_found_not_active_witness:
  "sendMessage codex_online_dispatcher example_world (new_database 0) 5 ping_opts
     = Some (Inr ping_result, ping_db)
   \<and> o_conversationId ping_opts = None
   \<and> getConversation (new_database 0) ''c1'' = None
   \<and> cv_status (r_conversation ping_result) = C_active
   \<and> messages ping_db = messages (new_database 0) @ [r_message ping_result]
   \<and> m_conversation_id (r_message ping_result) = cv_id (r_conversation ping_result)
   \<and> getConversation ping_db ''c9'' = None
   \<and> sendMessage codex_online_dispatcher example_world ping_db 6
        (ping_opts\<lparr>o_conversationId := Some ''c9''\<rparr>)
       = Some (Inl (ConversationNotFound ''c9''), ping_db)"
proof -
  have h: "o_conversationId (ping_opts\<lparr>o_conversationId := Some ''c9''\<rparr>) = Some ''c9''
           \<and> ''c9'' \<noteq> [] \<and> getConversation ping_db ''c9'' = None"
    by (simp add: getConversation_def ping_db_def one_message_db_def new_database_def)
  have a: "sendMessage codex_online_dispatcher example_world ping_db 6
             (ping_opts\<lparr>o_conversationId := Some ''c9''\<rparr>)
           = Some (Inl (ConversationNotFound ''c9''), ping_db)"
    using sendMessage_conversation_found_not_active
      [of codex_online_dispatcher example_world ping_db 6 "ping_opts\<lparr>o_conversationId := Some ''c9''\<rparr>"]
      h by blast
  have b: "case o_conversationId ping_opts of
         None \<Rightarrow> getConversation (new_database 0) (uuid_conversation example_world) = None
                  \<and> cv_id (r_conversation ping_result) = uuid_conversation example_world
                  \<and> cv_status (r_conversation ping_result) = C_active
       | Some cid \<Rightarrow>
           if cid = []
           then getConversation (new_database 0) (uuid_conversation example_world) = None
                \<and> cv_id (r_conversation ping_result) = uuid_conversation example_world
                \<and> cv_status (r_conversation ping_result) = C_active
           else getConversation (new_database 0) cid = Some (r_conversation ping_result)"
    using sendMessage_conversation_found_not_active
      [of codex_online_dispatcher example_world "new_database 0" 5 ping_opts]
      ping_eval by blast
  from a b h ping_eval show ?thesis
    by (simp add: ping_opts_def example_world_def ping_result_def ping_db_def one_message_db_def
        new_database_def)
qed

text \<open>
  Claim C4 as stated fails: a conversation is created, closed with
  \<^verbatim>\<open>closeConversation\<close> (status completed), and \<^verbatim>\<open>sendMessage\<close> with its id then
  succeeds and inserts message m1 into it; the conversation is still completed.
\<close>

theorem sendMessage_into_completed_conversation:
  "(case createConversation (new_database 0) 1 ''c1''
           \<lparr>ci_title = None, ci_project = None, ci_created_by = claude, ci_metadata = None\<rparr> of
      Inl e \<Rightarrow> False
    | Inr (c, db1) \<Rightarrow>
        (case closeConversation db1 2 ''c1'' None of
           (closed, db2) \<Rightarrow>
             map_option cv_status closed = Some C_completed
             \<and> (case sendMessage both_online_dispatcher example_world db2 3 hello_opts of
                   Some (Inr result, db3) \<Rightarrow>
                     cv_status (r_conversation result) = C_completed
                     \<and> map (\<lambda>m. (m_id m, m_conversation_id m, m_status m)) (messages db3)
                         = [(''m1'', ''c1'', S_delivered)]
                     \<and> map (\<lambda>c. (cv_id c, cv_status c)) (conversations db3)
                         = [(''c1'', C_completed)]
                 | _ \<Rightarrow> False)))"
  by (simp add: dispatcher_defs store_defs closeConversation_def updateConversation_def
      both_online_dispatcher_def example_world_def new_database_def hello_opts_def)

subsection \<open>Message status\<close>

lemma find_map_same_key:
  assumes "\<And>x. P (f x) = P x"
  shows "find P (map f xs) = map_option f (find P xs)"
  using assms by (induction xs) auto

lemma getMessage_updateMessageStatus:
  assumes "getMessage db mid = Some m"
  shows "getMessage (updateMessageStatus db now mid st) mid
         = Some (if st = S_delivered then m\<lparr>m_status := st, m_delivered_at := Some now\<rparr>
                 else if st = S_read then m\<lparr>m_status := st, m_read_at := Some now\<rparr>
                 else m\<lparr>m_status := st\<rparr>)"
proof -
  let ?f = "\<lambda>m. if m_id m = mid
                then (if st = S_delivered then m\<lparr>m_status := st, m_delivered_at := Some now\<rparr>
                      else if st = S_read then m\<lparr>m_status := st, m_read_at := Some now\<rparr>
                      else m\<lparr>m_status := st\<rparr>)
                else m"
  have k: "\<And>x. (m_id (?f x) = mid) = (m_id x = mid)" by simp
  have "m_id m = mid" using assms by (auto simp: getMessage_def find_Some_iff)
  then show ?thesis
    using assms find_map_same_key [of "\<lambda>m. m_id m = mid" ?f "messages db", OF k]
    by (simp add: getMessage_def updateMessageStatus_def)
qed

lemma getMessage_removeFromQueue:
  "getMessage (snd (removeFromQueue db x)) mid = getMessage db mid"
  by (simp add: removeFromQueue_def getMessage_def)

lemma sendMessage_messages_prefix:
  assumes "sendMessage d w db now opts = Some (out, db')"
  shows "\<exists>new. messages db' = messages db @ new"
proof -
  obtain c db1 where conv: "sendMessage_conversation w db now opts = (c, db1)"
    by (cases "sendMessage_conversation w db now opts")
  note f1 = sendMessage_conversation_frame [OF conv]
  show ?thesis
  proof (cases c)
    case (Inl e)
    with conv assms f1 show ?thesis by (auto simp: sendMessage_def)
  next
    case (Inr conversation)
    let ?mi = "\<lparr>mi_conversation_id = cv_id conversation, mi_sender = o_sender opts,
                 mi_target = o_target opts, mi_content = o_content opts,
                 mi_message_type = o_messageType opts, mi_priority = o_priority opts,
                 mi_response_to_id = None, mi_metadata = o_metadata opts\<rparr>"
    show ?thesis
    proof (cases "createMessage db1 now (uuid_message w) ?mi")
      case (Inl e)
      with conv Inr assms f1 show ?thesis by (auto simp: sendMessage_def)
    next
      case created: (Inr p)
      obtain message db2 where p: "p = (message, db2)" by (cases p)
      note cm = createMessage_Inr [OF created [unfolded p]]
      have old: "\<forall>x\<in>set (messages db). m_id x \<noteq> m_id message"
        using cm(11) cm(1) f1(1) getMessage_None_ids by metis
      have ms: "messages db2 = messages db @ [message]" using cm(6) f1(1) by simp
      have mc: "m_conversation_id message = cv_id conversation" using cm(3) by simp
      obtain out0 db3 where route: "sendMessage_route d w db2 now opts conversation message = (out0, db3)"
        by (cases "sendMessage_route d w db2 now opts conversation message")
      from sendMessage_route_post [OF old ms mc, of d w now opts]
      have post: "\<exists>new. messages db3 = messages db @ new"
        unfolding route by (auto simp: route_post_def)
      have "db' = db3"
      proof (cases out0)
        case (Inl e)
        with conv Inr created p route assms show ?thesis by (simp add: sendMessage_def)
      next
        case res: (Inr result0)
        obtain resp where
          "sendMessage d w db now opts = Some (Inr (result0\<lparr>r_response := resp\<rparr>), db3)"
          using sendMessage_wait_returns [of opts result0 db3 "m_id message"
              "case o_timeoutMs opts of None \<Rightarrow> 60000 | Some t \<Rightarrow> t"]
          using conv Inr created p route res
          by (auto simp: sendMessage_def)
        with assms show ?thesis by simp
      qed
      with post show ?thesis by simp
    qed
  qed
qed

lemma updateMessageStatus_last:
  assumes "\<forall>m\<in>set old. m_id m \<noteq> mid" "messages db = old @ message # rest"
    and "m_id message = mid" "\<forall>m\<in>set rest. m_id m \<noteq> mid"
  shows "messages (updateMessageStatus db now mid st)
         = old @ (if st = S_delivered then message\<lparr>m_status := st, m_delivered_at := Some now\<rparr>
                  else if st = S_read then message\<lparr>m_status := st, m_read_at := Some now\<rparr>
                  else message\<lparr>m_status := st\<rparr>) # rest"
proof -
  let ?f = "\<lambda>m. if m_id m = mid
                then (if st = S_delivered then m\<lparr>m_status := st, m_delivered_at := Some now\<rparr>
                      else if st = S_read then m\<lparr>m_status := st, m_read_at := Some now\<rparr>
                      else m\<lparr>m_status := st\<rparr>)
                else m"
  have "map ?f old = old" using assms(1) by (intro map_idI) auto
  moreover have "map ?f rest = rest" using assms(4) by (intro map_idI) auto
  ultimately show ?thesis
    using assms(2,3) by (simp add: updateMessageStatus_def)
qed

lemma sendMessage_respond_messages:
  assumes r: "sendMessage_respond w db now opts conv message content result = (Inr res, db')"
    and old: "\<forall>m\<in>set old. m_id m \<noteq> m_id message"
    and ms: "messages db = old @ [message]"
  shows "\<exists>resp. messages db' = old @ [message\<lparr>m_status := S_responded\<rparr>, resp]
           \<and> r_response res = Some resp
           \<and> m_response_to_id resp = Some (m_id message) \<and> m_status resp = S_pending"
proof -
  let ?mi = "\<lparr>mi_conversation_id = cv_id conv, mi_sender = o_target opts,
              mi_target = o_sender opts, mi_content = content,
              mi_message_type = getResponseType (o_messageType opts),
              mi_priority = None, mi_response_to_id = Some (m_id message),
              mi_metadata = None\<rparr>"
  from r obtain resp db1 where
    created: "createMessage db now (uuid_response w) ?mi = Inr (resp, db1)" and
    db': "db' = updateMessageStatus db1 now (m_id message) S_responded" and
    rr: "r_response res = Some resp"
    by (auto simp: sendMessage_respond_def split: sum.splits)
  note cm = createMessage_Inr [OF created]
  have rt: "m_response_to_id resp = Some (m_id message)"
    using created by (auto simp: createMessage_def Let_def split: if_splits)
  have "message \<in> set (messages db)" using ms by simp
  with cm(11) have "m_id message \<noteq> uuid_response w" by (rule getMessage_None_ids)
  with cm(1) have other: "\<forall>m\<in>set [resp]. m_id m \<noteq> m_id message" by simp
  have m1: "messages db1 = old @ message # [resp]" using cm(6) ms by simp
  from updateMessageStatus_last [OF old m1 refl other, of now S_responded]
  have "messages db' = old @ [message\<lparr>m_status := S_responded\<rparr>, resp]"
    unfolding db' by simp
  with rt rr cm(2) show ?thesis by blast
qed

lemma sendMessage_route_messages:
  assumes old: "\<forall>m\<in>set old. m_id m \<noteq> m_id message"
    and ms: "messages db2 = old @ [message]"
    and r: "sendMessage_route d w db2 now opts conv message = (Inr result, db')"
  shows "if sendMessage_targetOnline d (o_target opts)
         then messages db' = old @ [message\<lparr>m_status := S_delivered, m_delivered_at := Some now\<rparr>]
         else if o_target opts = codex
         then messages db' = old @ [message]
              \<or> (\<exists>resp. messages db' = old @ [message\<lparr>m_status := S_responded\<rparr>, resp]
                    \<and> r_response result = Some resp
                    \<and> m_response_to_id resp = Some (m_id message) \<and> m_status resp = S_pending)
         else messages db' = old @ [message]"
proof (cases "sendMessage_targetOnline d (o_target opts)")
  case True
  have "messages (updateMessageStatus db2 now (m_id message) S_delivered)
        = old @ [message\<lparr>m_status := S_delivered, m_delivered_at := Some now\<rparr>]"
    using updateMessageStatus_last [OF old, of db2 message "[]" now S_delivered] ms by simp
  with True r show ?thesis
    by (auto simp: sendMessage_route_def Let_def)
next
  case off: False
  show ?thesis
  proof (cases "o_target opts = codex")
    case False
    with off ms r show ?thesis
      by (auto simp: sendMessage_route_def Let_def split: sum.splits dest!: enqueueMessage_Inr(2))
  next
    case True
    let ?result = "\<lparr>r_message = message, r_conversation = conv, r_response = None,
                    r_invoked = None, r_invokedViaMcp = None, r_invocationError = None,
                    r_selectedAgent = None\<rparr>"
    let ?ctx = "buildConversationContext db2 (cv_id conv)"
    let ?persona = "sendMessage_persona w opts"
    let ?r1 = "?result\<lparr>r_selectedAgent := Some (p_name ?persona)\<rparr>"
    have responded: "\<exists>resp. messages db' = old @ [message\<lparr>m_status := S_responded\<rparr>, resp]
                    \<and> r_response res = Some resp
                    \<and> m_response_to_id resp = Some (m_id message) \<and> m_status resp = S_pending"
      if "sendMessage_respond w db2 now opts conv message content result0 = (Inr res, db')"
      for content result0 res
      using sendMessage_respond_messages [OF that old ms] .
    show ?thesis
    proof (cases "tryCodexMcpServer d w (o_content opts) ?ctx (m_id message) ?persona")
      case (Some mcpResult)
      have "sendMessage_route d w db2 now opts conv message
            = sendMessage_respond w db2 now opts conv message mcpResult
                (?r1\<lparr>r_invoked := Some True, r_invokedViaMcp := Some True\<rparr>)"
        using off True Some by (simp add: sendMessage_route_def Let_def)
      with r responded [of mcpResult _ result] off True show ?thesis by simp
    next
      case None
      let ?inv = "invokeCodexExec w message ?ctx
                    (case o_timeoutMs opts of None \<Rightarrow> 300000 | Some t \<Rightarrow> t)
                    (case o_useOutputSchema opts of None \<Rightarrow> True | Some b \<Rightarrow> b)"
      let ?r2 = "?r1\<lparr>r_invoked := Some True\<rparr>"
      show ?thesis
      proof (cases "iv_response ?inv")
        case inone: None
        with off True None r have "db' = db2"
          by (auto simp: sendMessage_route_def Let_def split: if_splits)
        with ms off True show ?thesis by simp
      next
        case (Some x)
        show ?thesis
        proof (cases "x = []")
          case xempty: True
          with Some off True None r have "db' = db2"
            by (auto simp: sendMessage_route_def Let_def split: if_splits)
          with ms off True show ?thesis by simp
        next
          case False
          have "sendMessage_route d w db2 now opts conv message
                = (case sendMessage_respond w db2 now opts conv message x ?r2 of
                     (Inl e, db') \<Rightarrow> (Inl e, db')
                   | (Inr result3, db') \<Rightarrow> (Inr result3, db'))"
            using off True None Some False
            by (simp add: sendMessage_route_def Let_def split: prod.splits sum.splits)
          with r obtain res where
            "sendMessage_respond w db2 now opts conv message x ?r2 = (Inr res, db')"
            "r_response result = r_response res"
            by (auto split: prod.splits sum.splits if_splits)
          from responded [OF this(1)] this(2) off True show ?thesis by simp
        qed
      qed
    qed
  qed
qed

lemma sendMessage_new_message:
  assumes ok: "sendMessage d w db now opts = Some (Inr result, db')"
  shows "m_id (r_message result) = uuid_message w \<and> m_status (r_message result) = S_pending
         \<and> getMessage db (uuid_message w) = None
         \<and> (if sendMessage_targetOnline d (o_target opts)
            then messages db' = messages db @
                   [(r_message result)\<lparr>m_status := S_delivered, m_delivered_at := Some now\<rparr>]
            else if o_target opts = codex
            then messages db' = messages db @ [r_message result]
                 \<or> (\<exists>resp. messages db' = messages db @
                              [(r_message result)\<lparr>m_status := S_responded\<rparr>, resp]
                       \<and> r_response result = Some resp
                       \<and> m_response_to_id resp = Some (uuid_message w)
                       \<and> m_status resp = S_pending)
            else messages db' = messages db @ [r_message result])"
proof -
  from ok obtain conv db1 message db2 result0 resp where
    conv: "sendMessage_conversation w db now opts = (Inr conv, db1)" and
    created: "createMessage db1 now (uuid_message w)
       \<lparr>mi_conversation_id = cv_id conv, mi_sender = o_sender opts,
        mi_target = o_target opts, mi_content = o_content opts,
        mi_message_type = o_messageType opts, mi_priority = o_priority opts,
        mi_response_to_id = None, mi_metadata = o_metadata opts\<rparr> = Inr (message, db2)" and
    route: "sendMessage_route d w db2 now opts conv message = (Inr result0, db')" and
    res: "result = result0\<lparr>r_response := resp\<rparr>"
    by (rule sendMessage_InrE)
  note f1 = sendMessage_conversation_frame [OF conv]
  note cm = createMessage_Inr [OF created]
  have fresh: "getMessage db (uuid_message w) = None"
    using cm(11) f1(1) by (simp add: getMessage_def)
  have old: "\<forall>m\<in>set (messages db). m_id m \<noteq> m_id message"
    using fresh cm(1) by (auto dest: getMessage_None_ids)
  have ms: "messages db2 = messages db @ [message]"
    using cm(6) f1(1) by simp
  have "route_post (messages db) conv message db2 (sendMessage_route d w db2 now opts conv message)"
    using old ms cm(3) by (intro sendMessage_route_post) simp_all
  with route res have rm: "r_message result = message"
    by (simp add: route_post_def)
  have keep: "result = result0" if "r_response result0 \<noteq> None"
    using that conv created route ok by (auto simp: sendMessage_def)
  from sendMessage_route_messages [OF old ms route] rm cm(1) cm(2) fresh keep
  show ?thesis by auto
qed

text \<open>
  \<^bold>\<open>Claim C3, as amended.\<close> For a stored message \<open>m\<close>: \<^verbatim>\<open>mark_message_read\<close> succeeds
  exactly when the caller is the target of \<open>m\<close>, and then runs
  \<^verbatim>\<open>updateMessageStatus(id, "read")\<close>; \<^verbatim>\<open>updateMessageStatus\<close> writes the status it
  is given (stamping \<^verbatim>\<open>read_at\<close> or \<^verbatim>\<open>delivered_at\<close>) whatever the status of \<open>m\<close> was;
  \<^verbatim>\<open>sendMessage\<close> leaves \<open>m\<close> as it is; and a queue delivery to an online target sets
  \<open>m\<close> to delivered whatever its status was. A successful \<^verbatim>\<open>sendMessage\<close> updates only
  the message it has just created: the message of the result is the new row, pending,
  under an id that was unused, and the messages after the call are the messages before
  it followed by the new message. When the registry reports the target online the new
  message is delivered (stamped); when the target is the offline codex it is either
  pending, or responded and followed by the pending response to it that the result
  carries; otherwise it is pending.
\<close>

theorem status_written_unconditionally:
  "(getMessage db mid = Some m \<longrightarrow>
      ((\<exists>db'. mark_message_read db now caller mid = Inr db') \<longleftrightarrow> caller = Some (m_target m))
    \<and> (caller = Some (m_target m) \<longrightarrow>
         mark_message_read db now caller mid = Inr (updateMessageStatus db now mid S_read))
    \<and> getMessage (updateMessageStatus db now mid S_read) mid
        = Some (m\<lparr>m_status := S_read, m_read_at := Some now\<rparr>)
    \<and> getMessage (updateMessageStatus db now mid S_delivered) mid
        = Some (m\<lparr>m_status := S_delivered, m_delivered_at := Some now\<rparr>)
    \<and> getMessage (updateMessageStatus db now mid S_responded) mid
        = Some (m\<lparr>m_status := S_responded\<rparr>)
    \<and> (\<forall>out db'. sendMessage d w db now opts = Some (out, db') \<longrightarrow> getMessage db' mid = Some m)
    \<and> (isClientOnline db target \<and> q_message_id item = mid \<longrightarrow>
         getMessage (snd (attemptDelivery db now target item)) mid
           = Some (m\<lparr>m_status := S_delivered, m_delivered_at := Some now\<rparr>)))
   \<and> (\<forall>result db'. sendMessage d w db now opts = Some (Inr result, db') \<longrightarrow>
         m_id (r_message result) = uuid_message w \<and> m_status (r_message result) = S_pending
         \<and> getMessage db (uuid_message w) = None
         \<and> (if sendMessage_targetOnline d (o_target opts)
            then messages db' = messages db @
                   [(r_message result)\<lparr>m_status := S_delivered, m_delivered_at := Some now\<rparr>]
            else if o_target opts = codex
            then messages db' = messages db @ [r_message result]
                 \<or> (\<exists>resp. messages db' = messages db @
                              [(r_message result)\<lparr>m_status := S_responded\<rparr>, resp]
                       \<and> r_response result = Some resp
                       \<and> m_response_to_id resp = Some (uuid_message w)
                       \<and> m_status resp = S_pending)
            else messages db' = messages db @ [r_message result]))"
  (is "(?stored \<longrightarrow> ?old) \<and> ?new")
proof (rule conjI)
  show ?new
    using sendMessage_new_message [of d w db now opts] by blast
  show "?stored \<longrightarrow> ?old"
  proof
    assume assms: ?stored
    have mid: "m_id m = mid" using assms by (auto simp: getMessage_def find_Some_iff)
    have a: "(\<exists>db'. mark_message_read db now caller mid = Inr db') \<longleftrightarrow> caller = Some (m_target m)"
      using assms by (auto simp: mark_message_read_def split: option.splits)
    have b: "caller = Some (m_target m) \<longrightarrow>
           mark_message_read db now caller mid = Inr (updateMessageStatus db now mid S_read)"
      using assms by (simp add: mark_message_read_def)
    note u = getMessage_updateMessageStatus [OF assms, of now]
    have c: "\<forall>out db'. sendMessage d w db now opts = Some (out, db') \<longrightarrow> getMessage db' mid = Some m"
      using sendMessage_messages_prefix getMessage_append_old [OF assms] by blast
    have e: "isClientOnline db target \<and> q_message_id item = mid \<longrightarrow>
           getMessage (snd (attemptDelivery db now target item)) mid
             = Some (m\<lparr>m_status := S_delivered, m_delivered_at := Some now\<rparr>)"
      using assms mid u [of S_delivered]
      by (simp add: attemptDelivery_def getMessage_removeFromQueue)
    from a b c e u [of S_read] u [of S_delivered] u [of S_responded] show ?old
      by simp
  qed
qed

lemma toLowerCase_ask: "example_toLowerCase ''Why is X failing?'' = ''why is x failing?''"
  by (simp add: KELVIN_SIGN_def ascii_toLowerCase_def)

lemma selectAgent_ask: "selectAgent example_toLowerCase ''Why is X failing?'' = ORACLE"
  unfolding selectAgent_def toLowerCase_ask by (simp add: oracleTriggers_def)

lemma ask_eval:
  "sendMessage claude_online_dispatcher replying_world (new_database 0) 5 ask_opts
     = Some (Inr ask_result, ask_db)"
  by (simp add: dispatcher_defs store_defs claude_online_dispatcher_def replying_world_def
      example_world_def new_database_def ask_opts_def ask_result_def ask_db_def
      ask_message_def ask_response_def ask_conversation_def
      sendMessage_persona_def selectAgent_ask ORACLE_def tryCodexMcpServer_def
      getResponseType_def)

text \<open>
  Claim C3 as stated fails: claude sends to the offline codex, the persistent peer
  answers, the message is marked responded; codex, its target, then calls
  \<^verbatim>\<open>mark_message_read\<close> and the status goes back to read.
\<close>

theorem mark_message_read_moves_responded_back:
  "(case sendMessage claude_online_dispatcher replying_world (new_database 0) 5 ask_opts of
      Some (Inr result, db1) \<Rightarrow>
        map_option m_status (getMessage db1 ''m1'') = Some S_responded
        \<and> (case mark_message_read db1 6 (Some codex) ''m1'' of
              Inr db2 \<Rightarrow> map_option m_status (getMessage db2 ''m1'') = Some S_read
            | Inl e \<Rightarrow> False)
    | _ \<Rightarrow> False)"
  unfolding ask_eval
  by (simp add: ask_db_def ask_message_def ask_response_def new_database_def
      mark_message_read_def getMessage_def updateMessageStatus_def)

text \<open>
  The amended statement at a store where claude is marked online and message m1 for
  claude is pending and queued: a send to codex, which the registry reports online,
  leaves m1 as it is and appends the new message m2 as delivered. And at the scenario
  "offline codex": the new message m1 is responded and followed by the pending response
  r1.
\<close>

theorem status_written_unconditionally_witness:
  "getMessage claude_marked_online_db ''m1'' = Some (r_message ping_result)
   \<and> m_target (r_message ping_result) = claude
   \<and> mark_message_read claude_marked_online_db 7 (Some claude) ''m1''
       = Inr (updateMessageStatus claude_marked_online_db 7 ''m1'' S_read)
   \<and> getMessage (updateMessageStatus claude_marked_online_db 7 ''m1'' S_read) ''m1''
       = Some ((r_message ping_result)\<lparr>m_status := S_read, m_read_at := Some 7\<rparr>)
   \<and> sendMessage_targetOnline both_online_dispatcher (o_target hello_opts)
   \<and> (case sendMessage both_online_dispatcher (example_world\<lparr>uuid_message := ''m2''\<rparr>)
              claude_marked_online_db 7 hello_opts of
         Some (Inr result, db') \<Rightarrow>
           getMessage db' ''m1'' = Some (r_message ping_result)
           \<and> m_id (r_message result) = ''m2'' \<and> m_status (r_message result) = S_pending
           \<and> messages db' = messages claude_marked_online_db @
                [(r_message result)\<lparr>m_status := S_delivered, m_delivered_at := Some 7\<rparr>]
           \<and> map (\<lambda>m. (m_id m, m_status m, m_delivered_at m)) (messages db')
               = [(''m1'', S_pending, None), (''m2'', S_delivered, Some 7)]
       | _ \<Rightarrow> False)
   \<and> isClientOnline claude_marked_online_db claude
   \<and> getMessage (snd (attemptDelivery claude_marked_online_db 7 claude
                        \<lparr>q_id = 1, q_message_id = ''m1'', q_target = claude, q_priority = 1,
                         q_attempts = 0, q_max_attempts = 5, q_next_attempt = 5,
                         q_created_at = 5\<rparr>)) ''m1''
       = Some ((r_message ping_result)\<lparr>m_status := S_delivered, m_delivered_at := Some 7\<rparr>)
   \<and> \<not> sendMessage_targetOnline claude_online_dispatcher (o_target ask_opts)
   \<and> o_target ask_opts = codex
   \<and> sendMessage claude_online_dispatcher replying_world (new_database 0) 5 ask_opts
       = Some (Inr ask_result, ask_db)
   \<and> m_status (r_message ask_result) = S_pending
   \<and> messages ask_db = [(r_message ask_result)\<lparr>m_status := S_responded\<rparr>, ask_response]
   \<and> r_response ask_result = Some ask_response
   \<and> m_response_to_id ask_response = Some ''m1'' \<and> m_status ask_response = S_pending"
proof -
  let ?w = "example_world\<lparr>uuid_message := ''m2''\<rparr>"
  have h: "getMessage claude_marked_online_db ''m1'' = Some (r_message ping_result)"
    by (simp add: claude_marked_online_db_def updateClientStatus_def getMessage_def ping_db_def
        one_message_db_def ping_result_def)
  have t: "m_target (r_message ping_result) = claude"
    by (simp add: ping_result_def)
  have on: "isClientOnline claude_marked_online_db claude"
    by (simp add: claude_marked_online_db_def updateClientStatus_def isClientOnline_def
        getClient_def ping_db_def one_message_db_def new_database_def)
  have reg: "sendMessage_targetOnline both_online_dispatcher (o_target hello_opts)"
    by (simp add: sendMessage_targetOnline_def both_online_dispatcher_def isOnline_def
        hello_opts_def)
  have "\<exists>result db'. sendMessage both_online_dispatcher ?w claude_marked_online_db 7 hello_opts
                       = Some (Inr result, db')"
    by (simp add: dispatcher_defs store_defs both_online_dispatcher_def example_world_def
        hello_opts_def claude_marked_online_db_def updateClientStatus_def ping_db_def
        one_message_db_def new_database_def)
  then obtain result db' where
    s: "sendMessage both_online_dispatcher ?w claude_marked_online_db 7 hello_opts
        = Some (Inr result, db')"
    by blast
  note th = status_written_unconditionally [of claude_marked_online_db "''m1''"
      "r_message ping_result" 7 "Some claude" both_online_dispatcher ?w hello_opts claude
      "\<lparr>q_id = 1, q_message_id = ''m1'', q_target = claude, q_priority = 1,
        q_attempts = 0, q_max_attempts = 5, q_next_attempt = 5, q_created_at = 5\<rparr>"]
  from th h s reg
  have new: "getMessage db' ''m1'' = Some (r_message ping_result)"
    "m_id (r_message result) = ''m2''" "m_status (r_message result) = S_pending"
    "messages db' = messages claude_marked_online_db @
       [(r_message result)\<lparr>m_status := S_delivered, m_delivered_at := Some 7\<rparr>]"
    by simp_all
  have old: "map (\<lambda>m. (m_id m, m_status m, m_delivered_at m)) (messages claude_marked_online_db)
             = [(''m1'', S_pending, None)]"
    by (simp add: claude_marked_online_db_def updateClientStatus_def ping_db_def
        one_message_db_def)
  have shape: "map (\<lambda>m. (m_id m, m_status m, m_delivered_at m)) (messages db')
               = [(''m1'', S_pending, None), (''m2'', S_delivered, Some 7)]"
    using new(2,4) old by simp
  have off: "\<not> sendMessage_targetOnline claude_online_dispatcher (o_target ask_opts)"
    "o_target ask_opts = codex"
    by (simp_all add: sendMessage_targetOnline_def claude_online_dispatcher_def isOnline_def
        ask_opts_def)
  have ask: "m_status (r_message ask_result) = S_pending"
    "messages ask_db = [(r_message ask_result)\<lparr>m_status := S_responded\<rparr>, ask_response]"
    "r_response ask_result = Some ask_response"
    "m_response_to_id ask_response = Some ''m1''" "m_status ask_response = S_pending"
    by (simp_all add: ask_result_def ask_db_def ask_message_def ask_response_def)
  from th h t on reg s new shape off ask ask_eval show ?thesis
    by simp
qed

subsection \<open>The drain and the registry\<close>

lemma restarted_process_eval:
  "restarted_process =
     \<lparr>proc_registry = Map.empty,
      proc_db = updateClientStatus (new_database 0) 1 claude online (Some ''s1'')\<rparr>"
  by (simp add: restarted_process_def runHttpMode_def onsessioninitialized_def onClientOnline_def
      processQueueForTarget_def dequeueMessages_def order_rows_def updateClientStatus_def
      new_database_def isClientOnline_def getClient_def Let_def)

text \<open>
  \<^bold>\<open>Claim C2\<close> says that the drain asks the in-memory registry whether the target is
  online. The code asks the store. The evaluation below runs the code where the two
  differ: a process starts on a database file whose \<^verbatim>\<open>clients\<close> row for claude still
  says online (the previous process registered a session and ended without the close
  hook), so the new registry is empty. The dispatcher, reading the registry, enqueues
  the message for the offline claude; the drain, reading \<^verbatim>\<open>clients.status\<close>, dequeues
  it, \<^verbatim>\<open>attemptDelivery\<close> answers delivered instead of retry, and the message is
  marked delivered.
\<close>

theorem drain_delivers_while_registry_offline:
  "\<not> isOnline (proc_registry restarted_process) claude
   \<and> (case sendMessage
              \<lparr>d_clientRegistry = Some (proc_registry restarted_process), d_codexMcpEnabled = True\<rparr>
              example_world (proc_db restarted_process) 5 ping_opts of
         Some (Inr result, db1) \<Rightarrow>
           map q_message_id (message_queue db1) = [''m1'']
           \<and> map (\<lambda>m. (m_id m, m_status m)) (messages db1) = [(''m1'', S_pending)]
           \<and> fst (attemptDelivery db1 6 claude (hd (message_queue db1))) = Delivered
           \<and> (case processQueueForTarget db1 6 claude of
                 (delivered, retried, db2) \<Rightarrow>
                   delivered = 1 \<and> retried = 0 \<and> message_queue db2 = []
                   \<and> map (\<lambda>m. (m_id m, m_status m)) (messages db2) = [(''m1'', S_delivered)])
       | _ \<Rightarrow> False)"
  unfolding restarted_process_eval
  by (simp add: dispatcher_defs store_defs example_world_def ping_opts_def new_database_def
      updateClientStatus_def processQueueForTarget_def dequeueMessages_def ready_def
      order_rows_def attemptDelivery_def removeFromQueue_def)

text \<open>
  What the drain reads: it commutes with any change of the registry, it leaves the
  process as it is when \<^verbatim>\<open>clients.status\<close> of the target is not online, and
  \<^verbatim>\<open>attemptDelivery\<close> chooses between retry and delivery on \<^verbatim>\<open>clients.status\<close>.
\<close>

lemma drain_reads_clients_status:
  "drain (s\<lparr>proc_registry := reg\<rparr>) now t = (drain s now t)\<lparr>proc_registry := reg\<rparr>
   \<and> (\<not> isClientOnline (proc_db s) t \<longrightarrow> drain s now t = s)
   \<and> (isClientOnline db t \<longrightarrow>
        processQueueForTarget db now t
          = processQueue_items now t (dequeueMessages db now t 10) (0, 0, db))
   \<and> (\<not> isClientOnline db t \<and> getMessage db (q_message_id item) \<noteq> None \<longrightarrow>
        attemptDelivery db now t item = (Retry, scheduleRetry db now item))
   \<and> (isClientOnline db t \<and> getMessage db (q_message_id item) \<noteq> None \<longrightarrow>
        attemptDelivery db now t item
          = (Delivered,
             snd (removeFromQueue (updateMessageStatus db now (q_message_id item) S_delivered)
                    (q_message_id item))))"
proof -
  have "m_id m = q_message_id item" if "getMessage db (q_message_id item) = Some m" for m
    using that by (auto simp: getMessage_def find_Some_iff)
  then show ?thesis
    by (auto simp: drain_def processQueueForTarget_def attemptDelivery_def Let_def)
qed

subsection \<open>Persona selection\<close>

lemma startsWith_iff: "startsWith s t \<longleftrightarrow> (\<exists>ss. s = t @ ss)"
  by (induction s t rule: startsWith.induct) auto

lemma includes_str_iff: "includes_str s t \<longleftrightarrow> (\<exists>ps ss. s = ps @ t @ ss)"
proof (induction s)
  case Nil
  then show ?case by auto
next
  case (Cons a s)
  show ?case
  proof
    assume "includes_str (a # s) t"
    then consider "startsWith (a # s) t" | "includes_str s t" by auto
    then show "\<exists>ps ss. a # s = ps @ t @ ss"
    proof cases
      case 1
      then obtain ss where "a # s = t @ ss" using startsWith_iff by blast
      then have "a # s = [] @ t @ ss" by simp
      then show ?thesis by blast
    next
      case 2
      then obtain ps ss where "s = ps @ t @ ss" using Cons.IH by blast
      then have "a # s = (a # ps) @ t @ ss" by simp
      then show ?thesis by blast
    qed
  next
    assume "\<exists>ps ss. a # s = ps @ t @ ss"
    then obtain ps ss where e: "a # s = ps @ t @ ss" by blast
    show "includes_str (a # s) t"
    proof (cases ps)
      case Nil
      with e have "startsWith (a # s) t" using startsWith_iff by auto
      then show ?thesis by simp
    next
      case (Cons b ps')
      with e have "s = ps' @ t @ ss" by simp
      then have "includes_str s t" using Cons.IH by blast
      then show ?thesis by simp
    qed
  qed
qed

lemma selectAgent_loop_iff:
  "selectAgent_loop lower ts = (if \<exists>t\<in>set ts. includes_str lower t then ORACLE else ARCHITECT)"
  by (induction ts) auto

lemma ORACLE_neq_ARCHITECT: "ORACLE \<noteq> ARCHITECT"
  by (simp add: ORACLE_def ARCHITECT_def)

lemma sendMessage_persona_iff:
  "sendMessage_persona w opts =
     (case o_agent opts of
        Some a \<Rightarrow> AGENT_PERSONAS a
      | None \<Rightarrow>
          if \<exists>t\<in>set [''why'', ''debug'', ''investigate'', ''root cause'', ''understand'',
                        ''explain'', ''failing'', ''broken'', ''not working'', ''error'', ''bug''].
               \<exists>ps ss. String_toLowerCase w (o_content opts) = ps @ t @ ss
          then ORACLE else ARCHITECT)"
  by (simp add: sendMessage_persona_def getAgent_def selectAgent_def selectAgent_loop_iff
      includes_str_iff oracleTriggers_def split: option.splits)

lemma sendMessage_respond_selectedAgent:
  "sendMessage_respond w db now opts conv message content result = (Inr res, db')
   \<Longrightarrow> r_selectedAgent res = r_selectedAgent result"
  by (auto simp: sendMessage_respond_def split: sum.splits)

lemma sendMessage_route_selectedAgent:
  assumes off: "\<not> sendMessage_targetOnline d codex" and tgt: "o_target opts = codex"
    and r: "sendMessage_route d w db now opts conv message = (Inr res, db')"
  shows "r_selectedAgent res = Some (p_name (sendMessage_persona w opts))"
proof -
  let ?ctx = "buildConversationContext db (cv_id conv)"
  let ?persona = "sendMessage_persona w opts"
  show ?thesis
  proof (cases "tryCodexMcpServer d w (o_content opts) ?ctx (m_id message) ?persona")
    case (Some mcpResult)
    with off tgt r show ?thesis
      by (auto simp: sendMessage_route_def Let_def dest!: sendMessage_respond_selectedAgent)
  next
    case None
    let ?inv = "invokeCodexExec w message ?ctx
                  (case o_timeoutMs opts of None \<Rightarrow> 300000 | Some t \<Rightarrow> t)
                  (case o_useOutputSchema opts of None \<Rightarrow> True | Some b \<Rightarrow> b)"
    show ?thesis
    proof (cases "iv_response ?inv")
      case inone: None
      with off tgt r None show ?thesis
        by (auto simp: sendMessage_route_def Let_def split: if_splits)
    next
      case (Some x)
      with off tgt r None show ?thesis
        by (auto simp: sendMessage_route_def Let_def
            split: if_splits prod.splits sum.splits dest!: sendMessage_respond_selectedAgent)
    qed
  qed
qed

lemma sendMessage_peer_persona:
  "sendMessage d w db now opts
     = sendMessage d
         (w\<lparr>codexMcpClient_sendMessage :=
              (\<lambda>prompt messageId persona.
                 codexMcpClient_sendMessage w prompt messageId (sendMessage_persona w opts))\<rparr>)
         db now opts"
proof -
  let ?w = "w\<lparr>codexMcpClient_sendMessage :=
              (\<lambda>prompt messageId persona.
                 codexMcpClient_sendMessage w prompt messageId (sendMessage_persona w opts))\<rparr>"
  have p: "sendMessage_persona ?w opts = sendMessage_persona w opts"
    by (simp add: sendMessage_persona_def split: option.splits)
  have c: "sendMessage_conversation ?w db0 now opts = sendMessage_conversation w db0 now opts"
    for db0
    by (simp add: sendMessage_conversation_def)
  have t: "tryCodexMcpServer d ?w content ctx mid (sendMessage_persona w opts)
           = tryCodexMcpServer d w content ctx mid (sendMessage_persona w opts)"
    for content ctx mid
    by (simp add: tryCodexMcpServer_def)
  have s: "sendMessage_respond ?w db0 now opts conv message content result
           = sendMessage_respond w db0 now opts conv message content result"
    for db0 conv message content result
    by (simp add: sendMessage_respond_def)
  have i: "invokeCodexExec ?w = invokeCodexExec w" "uuid_message ?w = uuid_message w"
    by simp_all
  have r: "sendMessage_route d ?w db0 now opts conv message
           = sendMessage_route d w db0 now opts conv message"
    for db0 conv message
    unfolding sendMessage_route_def Let_def p t s i ..
  show ?thesis
    unfolding sendMessage_def c r i ..
qed

text \<open>
  \<^bold>\<open>Claim C9.\<close> The persona of the offline-codex branch is the persona named by the
  \<^verbatim>\<open>agent\<close> option when it is given; otherwise it is the oracle persona if and only if
  one of the eleven triggers is a substring of the lowercased content (the content after
  the built-in \<^verbatim>\<open>toLowerCase\<close>, whatever that function does), and the architect
  persona otherwise. The two personas differ, a successful \<^verbatim>\<open>sendMessage\<close> to the
  offline codex reports the name of that persona as \<^verbatim>\<open>selectedAgent\<close>, and no other
  persona reaches the persistent peer: \<^verbatim>\<open>sendMessage\<close> behaves as it does with a peer
  that is handed that persona whatever it is called with.
\<close>

theorem persona_selection:
  "sendMessage_persona w opts =
     (case o_agent opts of
        Some a \<Rightarrow> AGENT_PERSONAS a
      | None \<Rightarrow>
          if \<exists>t\<in>set [''why'', ''debug'', ''investigate'', ''root cause'', ''understand'',
                        ''explain'', ''failing'', ''broken'', ''not working'', ''error'', ''bug''].
               \<exists>ps ss. String_toLowerCase w (o_content opts) = ps @ t @ ss
          then ORACLE else ARCHITECT)
   \<and> AGENT_PERSONAS A_oracle = ORACLE \<and> AGENT_PERSONAS A_architect = ARCHITECT
   \<and> ORACLE \<noteq> ARCHITECT
   \<and> (\<not> sendMessage_targetOnline d codex \<and> o_target opts = codex \<longrightarrow>
        (\<forall>result db'. sendMessage d w db now opts = Some (Inr result, db') \<longrightarrow>
           r_selectedAgent result = Some (p_name (sendMessage_persona w opts))))
   \<and> sendMessage d w db now opts
       = sendMessage d
           (w\<lparr>codexMcpClient_sendMessage :=
                (\<lambda>prompt messageId persona.
                   codexMcpClient_sendMessage w prompt messageId (sendMessage_persona w opts))\<rparr>)
           db now opts"
  (is "?A \<and> ?B \<and> ?C \<and> ?D \<and> ?E \<and> ?F")
proof (intro conjI)
  show ?A by (rule sendMessage_persona_iff)
  show ?B by simp
  show ?C by simp
  show ?D by (rule ORACLE_neq_ARCHITECT)
  show ?F by (rule sendMessage_peer_persona)
  show ?E
  proof (intro impI allI, elim conjE)
    fix result db'
    assume off: "\<not> sendMessage_targetOnline d codex" and tgt: "o_target opts = codex"
      and ok: "sendMessage d w db now opts = Some (Inr result, db')"
    from ok obtain conv db1 message db2 result0 resp where
      r: "sendMessage_route d w db2 now opts conv message = (Inr result0, db')" and
      res: "result = result0\<lparr>r_response := resp\<rparr>"
      by (rule sendMessage_InrE)
    from sendMessage_route_selectedAgent [OF off tgt r] res
    show "r_selectedAgent result = Some (p_name (sendMessage_persona w opts))" by simp
  qed
qed

text \<open>
  The statement at the scenario "offline codex", with the lowercasing of the examples:
  "Why is X failing?" selects the oracle persona and the result names it; an explicit
  \<^verbatim>\<open>agent\<close> wins over the content; content without a trigger selects the architect
  persona; triggers in capitals select the oracle persona, and so does "BRO", a Kelvin
  sign, "EN build", which the built-in lowercases to "broken build".
\<close>

theorem persona_selection_witness:
  "\<not> sendMessage_targetOnline claude_online_dispatcher codex
   \<and> o_target ask_opts = codex
   \<and> o_agent ask_opts = None
   \<and> String_toLowerCase replying_world (o_content ask_opts) = [] @ ''why'' @ '' is x failing?''
   \<and> sendMessage_persona replying_world ask_opts = ORACLE
   \<and> sendMessage claude_online_dispatcher replying_world (new_database 0) 5 ask_opts
       = Some (Inr ask_result, ask_db)
   \<and> r_selectedAgent ask_result = Some ''oracle''
   \<and> sendMessage_persona replying_world (ask_opts\<lparr>o_agent := Some A_architect\<rparr>) = ARCHITECT
   \<and> sendMessage_persona replying_world (ask_opts\<lparr>o_content := ''Please review the design''\<rparr>)
       = ARCHITECT
   \<and> String_toLowerCase replying_world ''DEBUG the build'' = [] @ ''debug'' @ '' the build''
   \<and> sendMessage_persona replying_world (ask_opts\<lparr>o_content := ''DEBUG the build''\<rparr>)
       = ORACLE
   \<and> String_toLowerCase replying_world (''BRO'' @ KELVIN_SIGN @ ''EN build'')
       = [] @ ''broken'' @ '' build''
   \<and> sendMessage_persona replying_world (ask_opts\<lparr>o_content := ''BRO'' @ KELVIN_SIGN @ ''EN build''\<rparr>)
       = ORACLE"
proof -
  have h1: "\<not> sendMessage_targetOnline claude_online_dispatcher codex"
    by (simp add: sendMessage_targetOnline_def claude_online_dispatcher_def isOnline_def)
  have h2: "o_target ask_opts = codex" "o_agent ask_opts = None"
    by (simp_all add: ask_opts_def)
  have lw: "String_toLowerCase replying_world = example_toLowerCase"
    by (simp add: replying_world_def example_world_def)
  have low: "String_toLowerCase replying_world (o_content ask_opts)
             = [] @ ''why'' @ '' is x failing?''"
    by (simp add: lw ask_opts_def toLowerCase_ask del: example_toLowerCase.simps)
  have low2: "String_toLowerCase replying_world ''DEBUG the build''
              = [] @ ''debug'' @ '' the build''"
    by (simp add: lw KELVIN_SIGN_def ascii_toLowerCase_def)
  have low3: "String_toLowerCase replying_world (''BRO'' @ KELVIN_SIGN @ ''EN build'')
              = [] @ ''broken'' @ '' build''"
    by (simp add: lw KELVIN_SIGN_def ascii_toLowerCase_def)
  note t1 = persona_selection [of replying_world ask_opts claude_online_dispatcher
      "new_database 0" 5]
  have p: "sendMessage_persona replying_world ask_opts = ORACLE"
    using t1 [THEN conjunct1] h2 low by (auto simp del: append.simps)
  have sel: "r_selectedAgent ask_result
             = Some (p_name (sendMessage_persona replying_world ask_opts))"
    using t1 h1 h2 ask_eval by blast
  have a: "sendMessage_persona replying_world (ask_opts\<lparr>o_agent := Some A_architect\<rparr>)
           = ARCHITECT"
    using persona_selection [of replying_world "ask_opts\<lparr>o_agent := Some A_architect\<rparr>",
        THEN conjunct1]
    by simp
  have b: "sendMessage_persona replying_world
             (ask_opts\<lparr>o_content := ''Please review the design''\<rparr>) = ARCHITECT"
    by (simp add: sendMessage_persona_def ask_opts_def selectAgent_def lw KELVIN_SIGN_def
        ascii_toLowerCase_def oracleTriggers_def)
  have c: "sendMessage_persona replying_world (ask_opts\<lparr>o_content := ''DEBUG the build''\<rparr>)
           = ORACLE"
    using persona_selection
      [of replying_world "ask_opts\<lparr>o_content := ''DEBUG the build''\<rparr>", THEN conjunct1]
      h2 low2
    by (auto simp del: append.simps)
  have e: "sendMessage_persona replying_world
             (ask_opts\<lparr>o_content := ''BRO'' @ KELVIN_SIGN @ ''EN build''\<rparr>) = ORACLE"
    using persona_selection
      [of replying_world "ask_opts\<lparr>o_content := ''BRO'' @ KELVIN_SIGN @ ''EN build''\<rparr>",
        THEN conjunct1]
      h2 low3
    by (auto simp del: append.simps)
  from h1 h2 low low2 low3 p sel a b c e ask_eval show ?thesis
    by (simp add: ORACLE_def del: append.simps)
qed

subsection \<open>Response extraction\<close>

text \<open>
  A text item found by the first loop decides the result: \<^verbatim>\<open>JSON.parse\<close> is not
  consulted.
\<close>

lemma extractResponse_first_text_item:
  assumes "js_truthy result" "js_is_object result"
    and "js_get result ''content'' = JArr items"
    and "extractResponse_loop items = Some text"
  shows "extractResponse parse result = JStr text"
  using assms by (simp add: extractResponse_def)

text \<open>
  \<^bold>\<open>Claim C8\<close> says that a text item whose text parses as JSON with a
  \<^verbatim>\<open>response\<close> field yields the value of that field. The code returns the text of the
  first text item from inside its first loop, before the step that parses JSON is
  reached: for the tool result below, whose only item is the text
  \<^verbatim>\<open>{"response":"hi"}\<close>, the result is that text verbatim, whatever \<^verbatim>\<open>JSON.parse\<close>
  answers, and not \<^verbatim>\<open>hi\<close>.
\<close>

theorem extractResponse_returns_json_text_verbatim:
  \<open>extractResponse parse tool_result = JStr ''{"response":"hi"}''
   \<and> CodexMcpClient_response parse tool_result = JStr ''{"response":"hi"}''\<close>
  by (simp add: extractResponse_def CodexMcpClient_response_def tool_result_def
      response_item_def)

text \<open>
  The evaluation with a \<^verbatim>\<open>JSON.parse\<close> that reads the text as the object
  \<^verbatim>\<open>{response: "hi"}\<close>.
\<close>

theorem extractResponse_returns_json_text_verbatim_witness:
  \<open>example_parse (js_String (js_get response_item ''text''))
      = Some (JObj [(''response'', JStr ''hi'')])
   \<and> extractResponse example_parse tool_result = JStr ''{"response":"hi"}''
   \<and> CodexMcpClient_response example_parse tool_result = JStr ''{"response":"hi"}''\<close>
  using extractResponse_returns_json_text_verbatim [of example_parse]
  by (simp add: response_item_def example_parse_def)

subsection \<open>Replay after pruning\<close>

lemma map_upd_same_eq: "(m(k \<mapsto> a) = m(k \<mapsto> b)) \<longleftrightarrow> a = b"
  by (metis map_upd_eqD1)

lemmas eventStore_defs =
  storeEvent_def replayEventsAfter_def pruneStream_state_def rebuildIndex_def makeEventId_def
  parseStreamId_def Map_get_def Map_delete_def decimal.simps digit_char_def Let_def
  map_upd_same_eq

lemma stored_three_eval:
  "stored_three 900000 5000 =
     \<lparr>streams = [''s'' \<mapsto>
        \<lparr>nextSeq = 4,
         events = [\<lparr>ev_id = ''s:1'', ev_ts = 0, ev_message = 101\<rparr>,
                   \<lparr>ev_id = ''s:2'', ev_ts = 600000, ev_message = 102\<rparr>,
                   \<lparr>ev_id = ''s:3'', ev_ts = 600001, ev_message = 103\<rparr>],
         indexById = [(''s:1'', 0), (''s:2'', 1), (''s:3'', 2)]\<rparr>],
      ttlMs = 900000, maxEventsPerStream = 5000\<rparr>"
  by (simp add: stored_three_def eventStore_defs)

lemma stored_three_cap_eval:
  "stored_three 900000 2 =
     \<lparr>streams = [''s'' \<mapsto>
        \<lparr>nextSeq = 4,
         events = [\<lparr>ev_id = ''s:1'', ev_ts = 0, ev_message = 101\<rparr>,
                   \<lparr>ev_id = ''s:2'', ev_ts = 600000, ev_message = 102\<rparr>,
                   \<lparr>ev_id = ''s:3'', ev_ts = 600001, ev_message = 103\<rparr>],
         indexById = [(''s:1'', 0), (''s:2'', 1), (''s:3'', 2)]\<rparr>],
      ttlMs = 900000, maxEventsPerStream = 2\<rparr>"
  by (simp add: stored_three_def eventStore_defs)

text \<open>
  The loop that prunes by age, run on an index that lists the ids of the events in
  order: the entries that remain are entries of the old index, position included, and
  the index and the events lose the same number of entries.
\<close>

lemma pruneStream_ttl_keeps_positions:
  assumes "map fst index = map ev_id evs" and "distinct (map ev_id evs)"
    and "pruneStream_ttl cutoff evs index = (evs', index')"
  shows "map fst index' = map ev_id evs'
         \<and> set index' \<subseteq> set index
         \<and> (\<exists>dropped. evs = dropped @ evs')"
  using assms
proof (induction evs arbitrary: index)
  case Nil
  then show ?case by simp
next
  case (Cons ev rest)
  from Cons.prems(1) obtain e index0 where idx: "index = e # index0" "fst e = ev_id ev"
    "map fst index0 = map ev_id rest"
    by (cases index) auto
  show ?case
  proof (cases "ev_ts ev < cutoff")
    case False
    with Cons.prems show ?thesis by auto
  next
    case True
    have notin: "ev_id ev \<notin> set (map fst index0)"
      using Cons.prems(2) idx(3) by simp
    have "fst x \<noteq> ev_id ev" if "x \<in> set index0" for x
      using that notin by (metis image_eqI set_map)
    then have "filter (\<lambda>x. fst x \<noteq> ev_id ev) index0 = index0"
      by (simp add: filter_id_conv)
    then have del: "Map_delete index (ev_id ev) = index0"
      using idx by (simp add: Map_delete_def)
    from True Cons.prems(3) del
    have step: "pruneStream_ttl cutoff rest index0 = (evs', index')" by simp
    from Cons.IH [OF idx(3) _ step] Cons.prems(2)
    have "map fst index' = map ev_id evs'
         \<and> set index' \<subseteq> set index0 \<and> (\<exists>dropped. rest = dropped @ evs')"
      by simp
    then show ?thesis using idx(1)
      by (metis append_Cons set_subset_Cons subset_trans)
  qed
qed


lemma pruneStream_ttl_size_test_never_fires:
  assumes "map fst index = map ev_id evs" and "distinct (map ev_id evs)"
    and "pruneStream_ttl cutoff evs index = (evs', index')"
  shows "length index' = length evs'"
  using pruneStream_ttl_keeps_positions [OF assms] by (metis length_map)

text \<open>
  \<^bold>\<open>Claim C1\<close> says that the index is rebuilt after every prune that drops entries, so
  that a replay from an anchor still in the buffer sends the events after it. After a
  prune by age the code does not rebuild the index: the loop deletes one index entry per
  event it shifts, so the size test that guards the rebuild never fires and the
  remaining entries keep their old positions. Three events are stored in stream s with
  a TTL of 15 minutes; at a time when only the first has expired, a replay after s:2
  finds s:2 at the stale position 1, starts at position 2 and sends nothing, although
  s:3 is in the buffer after s:2. Without expiry the same replay sends s:3, and so does
  the prune by the cap, which rebuilds the index.
\<close>

theorem replayEventsAfter_after_ttl_prune:
  "replayEventsAfter (stored_three 900000 5000) 1000000 ''s:2''
     = (''s'', [],
        (stored_three 900000 5000)\<lparr>streams := [''s'' \<mapsto>
          \<lparr>nextSeq = 4,
           events = [\<lparr>ev_id = ''s:2'', ev_ts = 600000, ev_message = 102\<rparr>,
                     \<lparr>ev_id = ''s:3'', ev_ts = 600001, ev_message = 103\<rparr>],
           indexById = [(''s:2'', 1), (''s:3'', 2)]\<rparr>]\<rparr>)
   \<and> fst (snd (replayEventsAfter (stored_three 900000 5000) 700000 ''s:2'')) = [(''s:3'', 103)]
   \<and> replayEventsAfter (stored_three 900000 2) 700000 ''s:2''
     = (''s'', [(''s:3'', 103)],
        (stored_three 900000 2)\<lparr>streams := [''s'' \<mapsto>
          \<lparr>nextSeq = 4,
           events = [\<lparr>ev_id = ''s:2'', ev_ts = 600000, ev_message = 102\<rparr>,
                     \<lparr>ev_id = ''s:3'', ev_ts = 600001, ev_message = 103\<rparr>],
           indexById = [(''s:2'', 0), (''s:3'', 1)]\<rparr>]\<rparr>)"
  unfolding stored_three_eval stored_three_cap_eval
  by (simp add: eventStore_defs)

end
